theory Spec2Isabelle
  imports Complex_Main
begin

section \<open>The eyebrow studio page: data model\<close>

text \<open>
  The development embeds \<^verbatim>\<open>app/studio/page.tsx\<close> in its latest state (style
  catalog, frame loop, capture handler, stroke renderer) and the polygon-fill renderer
  of the preceding state of the same file.

  JavaScript numbers are modelled as mathematical reals (\<^typ>\<open>real\<close>): the rounding
  of IEEE-754 doubles is abstracted, \<^verbatim>\<open>Math.sin\<close> is \<^const>\<open>sin\<close> and
  \<^verbatim>\<open>Math.PI\<close> is \<^const>\<open>pi\<close>. Canvas and video dimensions are the unsigned
  integers of the DOM (\<^typ>\<open>nat\<close>); \<^verbatim>\<open>Date.now()\<close> is an integer number of
  milliseconds (\<^typ>\<open>int\<close>).
\<close>

subsection \<open>Run-time errors and array reads\<close>

text \<open>
  Reading an array out of range yields \<^verbatim>\<open>undefined\<close> (here \<^const>\<open>None\<close>);
  reading a property of \<^verbatim>\<open>undefined\<close> throws a \<^verbatim>\<open>TypeError\<close>. Both are
  written out, so that every property read of the source is a branch of the model.
\<close>

datatype js_error = TypeError

definition js_index :: "'a list \<Rightarrow> nat \<Rightarrow> 'a option" where
  "js_index xs i = (if i < length xs then Some (xs ! i) else None)"

definition js_prop :: "'a option \<Rightarrow> js_error + 'a" where
  "js_prop v = (case v of None \<Rightarrow> Inl TypeError | Some a \<Rightarrow> Inr a)"

subsection \<open>Records of the page\<close>

text \<open>\<^verbatim>\<open>type Capture = { url: string; createdAt: number }\<close>\<close>

record Capture =
  url :: string
  createdAt :: int

text \<open>
  \<^verbatim>\<open>type EyebrowStyle = { id; name; color; thickness; offsetY }\<close>. The field
  \<^verbatim>\<open>id\<close> is named \<open>id_style\<close>, since \<^const>\<open>id\<close> is the identity of HOL.
\<close>

record EyebrowStyle =
  id_style :: string
  name :: string
  color :: string
  thickness :: real
  offsetY :: real

text \<open>
  A point \<^verbatim>\<open>{ x: number; y: number }\<close>; a landmark of the detector extends it with
  an optional depth \<^verbatim>\<open>z?: number\<close>, which no function of the page reads.
\<close>

record point =
  x :: real
  y :: real

record landmark = point +
  z :: "real option"

datatype side = L | R

subsection \<open>The 2D drawing context\<close>

text \<open>
  The context is modelled by the size of its canvas and the sequence of calls and
  attribute assignments it has received, oldest first.
\<close>

datatype command =
    DrawImage real real real real
  | Save
  | Restore
  | SetFilter string
  | SetFillStyle string
  | SetStrokeStyle string
  | SetLineWidth real
  | SetLineCap string
  | SetLineJoin string
  | SetGlobalAlpha real
  | BeginPath
  | MoveTo real real
  | LineTo real real
  | QuadraticCurveTo real real real real
  | ClosePath
  | Stroke
  | Fill

record ctx =
  width :: nat
  height :: nat
  ops :: "command list"

definition emit :: "ctx \<Rightarrow> command \<Rightarrow> ctx" where
  "emit c cmd = c\<lparr>ops := ops c @ [cmd]\<rparr>"

subsection \<open>Constants of the page\<close>

text \<open>
  The style catalog (\<^verbatim>\<open>useState<EyebrowStyle[]>([...])\<close>, never updated). The
  display names are Korean text, given here by their UTF-8 bytes.
\<close>

definition styles :: "EyebrowStyle list" where
  "styles =
    [ \<lparr> id_style = ''natural'',
        name = [CHR 0xEB, CHR 0x82, CHR 0xB4, CHR 0xEC, CHR 0xB6, CHR 0x94, CHR 0xEB,
                CHR 0x9F, CHR 0xB4],
        color = ''rgba(60, 40, 30, 0.75)'', thickness = 1.0, offsetY = 0.0 \<rparr>,
      \<lparr> id_style = ''soft-flat'',
        name = [CHR 0xEC, CHR 0x86, CHR 0x8C, CHR 0xED, CHR 0x94, CHR 0x84, CHR 0xED,
                CHR 0x8A, CHR 0xB8, CHR 0x20, CHR 0xEC, CHR 0x9D, CHR 0xBC, CHR 0xEC,
                CHR 0x9E, CHR 0x90],
        color = ''rgba(45, 35, 28, 0.82)'', thickness = 1.3, offsetY = - 0.003 \<rparr>,
      \<lparr> id_style = ''flat'',
        name = [CHR 0xEC, CHR 0x84, CHR 0xA0, CHR 0xEB, CHR 0xAA, CHR 0x85, CHR 0x20,
                CHR 0xEC, CHR 0x9D, CHR 0xBC, CHR 0xEC, CHR 0x9E, CHR 0x90],
        color = ''rgba(30, 22, 18, 0.88)'', thickness = 1.6, offsetY = - 0.006 \<rparr>,
      \<lparr> id_style = ''arch'',
        name = [CHR 0xEC, CHR 0x95, CHR 0x84, CHR 0xEC, CHR 0xB9, CHR 0x98],
        color = ''rgba(55, 35, 25, 0.85)'', thickness = 1.4, offsetY = - 0.01 \<rparr>,
      \<lparr> id_style = ''strong-arch'',
        name = [CHR 0xEA, CHR 0xB0, CHR 0x95, CHR 0xED, CHR 0x95, CHR 0x9C, CHR 0x20,
                CHR 0xEC, CHR 0x95, CHR 0x84, CHR 0xEC, CHR 0xB9, CHR 0x98],
        color = ''rgba(25, 18, 14, 0.9)'', thickness = 1.9, offsetY = - 0.014 \<rparr> ]"

definition LEFT_EYEBROW :: "nat list" where
  "LEFT_EYEBROW = [52, 65, 55, 107, 66, 105, 63, 70, 156]"

definition RIGHT_EYEBROW :: "nat list" where
  "RIGHT_EYEBROW = [282, 295, 285, 336, 296, 334, 293, 300, 383]"

text \<open>\<^verbatim>\<open>getArchStrength\<close>: a \<^verbatim>\<open>switch\<close> on the style identifier with a default.\<close>

definition getArchStrength :: "string \<Rightarrow> real" where
  "getArchStrength styleId =
    (if styleId = ''natural'' then 0.0
     else if styleId = ''soft-flat'' then 0.003
     else if styleId = ''flat'' then 0.0015
     else if styleId = ''arch'' then 0.007
     else if styleId = ''strong-arch'' then 0.011
     else 0.003)"

section \<open>The stroke renderer\<close>

subsection \<open>The smoothing routine\<close>

text \<open>
  The body of the \<^verbatim>\<open>for (let i = 1; i < pts.length - 1; i++)\<close> loop of
  \<^verbatim>\<open>smoothPath\<close>, entered at index \<open>i\<close>. Each \<^verbatim>\<open>pts[i]\<close> is an array read
  followed by property reads.
\<close>

function smoothLoop :: "point list \<Rightarrow> nat \<Rightarrow> ctx \<Rightarrow> js_error + ctx" where
  "smoothLoop pts i c =
    (if int i < int (length pts) - 1 then
       (case js_prop (js_index pts i) of
          Inl e \<Rightarrow> Inl e
        | Inr currP \<Rightarrow>
           (case js_prop (js_index pts (i + 1)) of
              Inl e \<Rightarrow> Inl e
            | Inr nextP \<Rightarrow>
               (let midX = (x currP + x nextP) / 2;
                    midY = (y currP + y nextP) / 2
                in smoothLoop pts (i + 1)
                     (emit c (QuadraticCurveTo (x currP) (y currP) midX midY)))))
     else Inr c)"
  by pat_completeness auto
termination
  by (relation "measure (\<lambda>(pts, i, c). length pts - i)") auto

declare smoothLoop.simps [simp del]

definition smoothPath :: "ctx \<Rightarrow> point list \<Rightarrow> js_error + ctx" where
  "smoothPath c pts =
    (if length pts < 2 then Inr c
     else
       (case js_prop (js_index pts 0) of
          Inl e \<Rightarrow> Inl e
        | Inr p0 \<Rightarrow>
           (case smoothLoop pts 1 (emit (emit c BeginPath) (MoveTo (x p0) (y p0))) of
              Inl e \<Rightarrow> Inl e
            | Inr c' \<Rightarrow>
               (case js_prop (js_index pts (nat (int (length pts) - 1))) of
                  Inl e \<Rightarrow> Inl e
                | Inr lastP \<Rightarrow> Inr (emit c' (LineTo (x lastP) (y lastP)))))))"

text \<open>
  The path that the specification describes for a point sequence \<open>P\<^sub>0 \<dots> P\<^sub>n\<close>:
  begin a path, move to \<open>P\<^sub>0\<close>, one quadratic curve per interior point with that point as
  control point and the midpoint to its successor as end point, a line to \<open>P\<^sub>n\<close>.
\<close>

definition interiorCurve_spec :: "point list \<Rightarrow> nat \<Rightarrow> command" where
  "interiorCurve_spec ps i =
    QuadraticCurveTo (x (ps ! i)) (y (ps ! i))
      ((x (ps ! i) + x (ps ! (i + 1))) / 2) ((y (ps ! i) + y (ps ! (i + 1))) / 2)"

definition midpointPath_spec :: "point list \<Rightarrow> command list" where
  "midpointPath_spec ps =
    [BeginPath, MoveTo (x (ps ! 0)) (y (ps ! 0))]
    @ map (interiorCurve_spec ps) [1 ..< length ps - 1]
    @ [LineTo (x (ps ! (length ps - 1))) (y (ps ! (length ps - 1)))]"

subsection \<open>From landmarks to canvas points\<close>

text \<open>
  The callback of \<^verbatim>\<open>indices.map((i, idx) => ...)\<close> in \<^verbatim>\<open>drawOneSide\<close>: \<open>n\<close> is
  \<^verbatim>\<open>indices.length\<close>, \<open>i\<close> the landmark index and \<open>idx\<close> its position in the list.
\<close>

definition toCanvasPoint ::
  "real \<Rightarrow> real \<Rightarrow> real \<Rightarrow> real \<Rightarrow> 'a point_scheme list \<Rightarrow> nat \<Rightarrow> nat \<Rightarrow> nat \<Rightarrow> point" where
  "toCanvasPoint w h archStrength offsetYpx landmarks n i idx =
    (case js_index landmarks i of
       None \<Rightarrow> \<lparr> x = 0, y = 0 \<rparr>
     | Some lm \<Rightarrow>
        (let t = (if n = 1 then 0.5 else real idx / (real n - 1));
             px = x lm * w;
             py = y lm * h + offsetYpx;
             arch = - archStrength * h * sin (pi * t)
         in \<lparr> x = px, y = py + arch \<rparr>))"

text \<open>The array \<^verbatim>\<open>points\<close> of \<^verbatim>\<open>drawOneSide\<close>.\<close>

definition eyebrowPoints ::
  "ctx \<Rightarrow> 'a point_scheme list \<Rightarrow> nat list \<Rightarrow> EyebrowStyle \<Rightarrow> point list" where
  "eyebrowPoints c landmarks indices style =
    (let w = real (width c);
         h = real (height c);
         archStrength = getArchStrength (id_style style);
         offsetYpx = offsetY style * h
     in map (\<lambda>(idx, i). toCanvasPoint w h archStrength offsetYpx landmarks (length indices) i idx)
          (enumerate 0 indices))"

subsection \<open>Drawing one eyebrow, and both\<close>

definition drawOneSide ::
  "ctx \<Rightarrow> 'a point_scheme list \<Rightarrow> nat list \<Rightarrow> EyebrowStyle \<Rightarrow> side \<Rightarrow> js_error + ctx" where
  "drawOneSide c landmarks indices style sd =
    (if length indices = 0 then Inr c
     else
       (let h = real (height c);
            baseWidth = h * 0.012;
            lineWidth = baseWidth * thickness style;
            points = eyebrowPoints c landmarks indices style;
            c1 = emit c Save;
            c2 = emit c1 (SetFilter ''blur(0.6px)'');
            c3 = emit c2 (SetStrokeStyle (color style));
            c4 = emit c3 (SetLineWidth lineWidth);
            c5 = emit c4 (SetLineCap ''round'');
            c6 = emit c5 (SetLineJoin ''round'')
        in case smoothPath c6 points of
             Inl e \<Rightarrow> Inl e
           | Inr c7 \<Rightarrow>
              (let c8 = emit c7 Stroke;
                   spread = lineWidth * 0.18;
                   shiftedUp = map (\<lambda>p. \<lparr> x = x p, y = y p - spread \<rparr>) points;
                   shiftedDown = map (\<lambda>p. \<lparr> x = x p, y = y p + spread \<rparr>) points;
                   c9 = emit c8 (SetGlobalAlpha 0.8)
               in case smoothPath c9 shiftedUp of
                    Inl e \<Rightarrow> Inl e
                  | Inr c10 \<Rightarrow>
                     (let c11 = emit c10 Stroke;
                          c12 = emit c11 (SetGlobalAlpha 0.7)
                      in case smoothPath c12 shiftedDown of
                           Inl e \<Rightarrow> Inl e
                         | Inr c13 \<Rightarrow> Inr (emit (emit c13 Stroke) Restore)))))"

definition drawEyebrows ::
  "ctx \<Rightarrow> 'a point_scheme list \<Rightarrow> EyebrowStyle \<Rightarrow> js_error + ctx" where
  "drawEyebrows c landmarks style =
    (case drawOneSide c landmarks LEFT_EYEBROW style L of
       Inl e \<Rightarrow> Inl e
     | Inr c' \<Rightarrow> drawOneSide c' landmarks RIGHT_EYEBROW style R)"

section \<open>The polygon-fill renderer of the preceding state\<close>

text \<open>
  The callbacks of the two \<^verbatim>\<open>indices.forEach((i, idx) => ...)\<close> loops: a landmark
  that is missing is skipped, a present one adds a vertex to the current path.
\<close>

definition fillVertex :: "'a point_scheme list \<Rightarrow> EyebrowStyle \<Rightarrow> nat \<times> nat \<Rightarrow> ctx \<Rightarrow> ctx" where
  "fillVertex landmarks style = (\<lambda>(idx, i) c.
    case js_index landmarks i of
      None \<Rightarrow> c
    | Some lm \<Rightarrow>
       (let px = x lm * real (width c);
            py = (y lm + offsetY style) * real (height c)
        in if idx = 0 then emit c (MoveTo px py) else emit c (LineTo px py)))"

definition scaledVertex ::
  "real \<Rightarrow> 'a point_scheme list \<Rightarrow> EyebrowStyle \<Rightarrow> nat \<times> nat \<Rightarrow> ctx \<Rightarrow> ctx" where
  "scaledVertex scale landmarks style = (\<lambda>(idx, i) c.
    case js_index landmarks i of
      None \<Rightarrow> c
    | Some lm \<Rightarrow>
       (let cx = 0.5 * real (width c);
            cy = 0.4 * real (height c);
            baseX = x lm * real (width c);
            baseY = (y lm + offsetY style) * real (height c);
            px = cx + (baseX - cx) * scale;
            py = cy + (baseY - cy) * scale
        in if idx = 0 then emit c (MoveTo px py) else emit c (LineTo px py)))"

definition drawOneSide_fill ::
  "ctx \<Rightarrow> 'a point_scheme list \<Rightarrow> nat list \<Rightarrow> EyebrowStyle \<Rightarrow> js_error + ctx" where
  "drawOneSide_fill c landmarks indices style =
    (if length indices = 0 then Inr c
     else
       (let c1 = emit c (SetFillStyle (color style));
            c2 = emit c1 Save;
            c3 = emit c2 (SetFilter ''blur(0.6px)'');
            c4 = emit c3 BeginPath;
            c5 = fold (fillVertex landmarks style) (enumerate 0 indices) c4;
            c6 = emit (emit c5 ClosePath) Fill;
            c7 = (if thickness style > 1 then
                    (let scale = 1 + (thickness style - 1) * 0.06;
                         d1 = emit c6 BeginPath;
                         d2 = fold (scaledVertex scale landmarks style) (enumerate 0 indices) d1
                     in emit (emit d2 ClosePath) Fill)
                  else c6)
        in Inr (emit c7 Restore)))"

definition drawEyebrows_fill ::
  "ctx \<Rightarrow> 'a point_scheme list \<Rightarrow> EyebrowStyle \<Rightarrow> js_error + ctx" where
  "drawEyebrows_fill c landmarks style =
    (case drawOneSide_fill c landmarks LEFT_EYEBROW style of
       Inl e \<Rightarrow> Inl e
     | Inr c' \<Rightarrow> drawOneSide_fill c' landmarks RIGHT_EYEBROW style)"

section \<open>Style selection, the frame loop and the capture store\<close>

text \<open>\<^verbatim>\<open>styles.find((s) => s.id === selectedStyleId) ?? styles[0]\<close>\<close>

definition resolveStyle :: "EyebrowStyle list \<Rightarrow> string \<Rightarrow> EyebrowStyle option" where
  "resolveStyle catalog selectedStyleId =
    (case find (\<lambda>s. id_style s = selectedStyleId) catalog of
       Some s \<Rightarrow> Some s
     | None \<Rightarrow> js_index catalog 0)"

text \<open>
  What one iteration of \<^verbatim>\<open>render\<close> reads from its environment: the video element,
  the detector reference and readiness flag, the value \<^verbatim>\<open>performance.now()\<close> returns,
  the field \<^verbatim>\<open>faceLandmarks\<close> of the result \<^verbatim>\<open>detectForVideo\<close> returns
  (\<^const>\<open>None\<close> when it is undefined), and the selected style identifier.
\<close>

record frame =
  readyState :: nat
  videoWidth :: nat
  videoHeight :: nat
  landmarker :: bool
  landmarkerReady :: bool
  nowInMs :: real
  faceLandmarks :: "landmark list list option"
  selectedStyleId :: string

text \<open>
  What the loop changes: the canvas, \<^verbatim>\<open>lastVideoTimeRef.current\<close>, the number of
  \<^verbatim>\<open>requestAnimationFrame\<close> calls, and (as a trace) the timestamps given to
  \<^verbatim>\<open>detectForVideo\<close>, oldest first.
\<close>

record studio =
  canvas :: ctx
  lastVideoTime :: real
  frameRequests :: nat
  detectCalls :: "real list"

definition initStudio :: "ctx \<Rightarrow> studio" where
  "initStudio c = \<lparr> canvas = c, lastVideoTime = - 1, frameRequests = 0, detectCalls = [] \<rparr>"

definition render :: "studio \<Rightarrow> frame \<Rightarrow> js_error + studio" where
  "render s f =
    (let s1 = s\<lparr>frameRequests := Suc (frameRequests s)\<rparr> in
     if readyState f < 2 then Inr s1
     else
       (let vw = videoWidth f; vh = videoHeight f in
        if vw = 0 \<or> vh = 0 then Inr s1
        else
          (let c1 = (if width (canvas s1) \<noteq> vw \<or> height (canvas s1) \<noteq> vh
                     then (canvas s1)\<lparr>width := vw, height := vh\<rparr> else canvas s1);
               c2 = emit c1 (DrawImage 0 0 (real vw) (real vh));
               s2 = s1\<lparr>canvas := c2\<rparr> in
           if \<not> landmarker f \<or> \<not> landmarkerReady f then Inr s2
           else if lastVideoTime s2 = nowInMs f then Inr s2
           else
             (let s3 = s2\<lparr>lastVideoTime := nowInMs f,
                          detectCalls := detectCalls s2 @ [nowInMs f]\<rparr> in
              case faceLandmarks f of
                None \<Rightarrow> Inr s3
              | Some faces \<Rightarrow>
                 if length faces = 0 then Inr s3
                 else
                   (case js_prop (js_index faces 0) of
                      Inl e \<Rightarrow> Inl e
                    | Inr landmarks \<Rightarrow>
                       (case js_prop (resolveStyle styles (selectedStyleId f)) of
                          Inl e \<Rightarrow> Inl e
                        | Inr style \<Rightarrow>
                           (case drawEyebrows c2 landmarks style of
                              Inl e \<Rightarrow> Inl e
                            | Inr c3 \<Rightarrow> Inr (s3\<lparr>canvas := c3\<rparr>))))))))"

text \<open>Successive iterations of the loop; an iteration that throws ends the run.\<close>

fun run :: "studio \<Rightarrow> frame list \<Rightarrow> js_error + studio" where
  "run s [] = Inr s"
| "run s (f # fs) = (case render s f of Inl e \<Rightarrow> Inl e | Inr s' \<Rightarrow> run s' fs)"

text \<open>
  \<^verbatim>\<open>handleCapture\<close>: \<open>canvasRef\<close> is \<^const>\<open>None\<close> when \<^verbatim>\<open>canvasRef.current\<close> is
  null and otherwise holds what \<^verbatim>\<open>toDataURL("image/png")\<close> returns; \<open>now\<close> is the
  value of \<^verbatim>\<open>Date.now()\<close>. The result is the new \<^verbatim>\<open>captures\<close> state.
\<close>

definition handleCapture :: "string option \<Rightarrow> int \<Rightarrow> Capture list \<Rightarrow> Capture list" where
  "handleCapture canvasRef now captures =
    (case canvasRef of
       None \<Rightarrow> captures
     | Some dataUrl \<Rightarrow> \<lparr> url = dataUrl, createdAt = now \<rparr> # captures)"

definition initCaptures :: "Capture list" where
  "initCaptures = []"

section \<open>Observations on runs and paths\<close>

text \<open>
  The guards of \<^const>\<open>render\<close> that precede the read of \<^verbatim>\<open>performance.now()\<close>:
  an iteration compares its timestamp with the last processed one exactly when all of
  them let it pass.
\<close>

definition reachesClock :: "frame \<Rightarrow> bool" where
  "reachesClock f =
    (\<not> readyState f < 2 \<and> videoWidth f \<noteq> 0 \<and> videoHeight f \<noteq> 0
     \<and> landmarker f \<and> landmarkerReady f)"

text \<open>The vertical coordinates of the control and end points that a path call carries.\<close>

fun pathYs :: "command \<Rightarrow> real list" where
  "pathYs (MoveTo px py) = [py]"
| "pathYs (LineTo px py) = [py]"
| "pathYs (QuadraticCurveTo cpx cpy px py) = [cpy, py]"
| "pathYs cmd = []"

section \<open>Auxiliary lemmas\<close>

subsection \<open>The smoothing routine never fails and emits the midpoint path\<close>

lemma smoothLoop_trace:
  "smoothLoop pts i c = Inr (c\<lparr>ops := ops c @ map (interiorCurve_spec pts) [i ..< length pts - 1]\<rparr>)"
proof (induction pts i c rule: smoothLoop.induct)
  case (1 pts i c)
  show ?case
  proof (cases "int i < int (length pts) - 1")
    case True
    then have lt: "i < length pts - 1" and lt1: "i < length pts" and lt2: "Suc i < length pts"
      by linarith+
    have step: "smoothLoop pts i c =
        smoothLoop pts (i + 1) (emit c (interiorCurve_spec pts i))"
      using True lt1 lt2
      by (subst smoothLoop.simps) (simp add: js_prop_def js_index_def interiorCurve_spec_def Let_def)
    have ih: "smoothLoop pts (i + 1) (emit c (interiorCurve_spec pts i)) =
        Inr ((emit c (interiorCurve_spec pts i))
              \<lparr>ops := ops (emit c (interiorCurve_spec pts i)) @ map (interiorCurve_spec pts) [i + 1 ..< length pts - 1]\<rparr>)"
      using "1.IH"[of "pts ! i" "pts ! (i + 1)" "(x (pts ! i) + x (pts ! (i + 1))) / 2"
                      "(y (pts ! i) + y (pts ! (i + 1))) / 2"] True lt1 lt2
      by (simp add: js_prop_def js_index_def interiorCurve_spec_def)
    have "[i ..< length pts - 1] = i # [i + 1 ..< length pts - 1]"
      using lt by (simp add: upt_conv_Cons)
    then show ?thesis
      unfolding step ih by (simp add: emit_def)
  next
    case False
    then have "[i ..< length pts - 1] = []" by simp
    with False show ?thesis
      by (subst smoothLoop.simps) simp
  qed
qed

lemma smoothPath_trace:
  assumes "2 \<le> length pts"
  shows "smoothPath c pts = Inr (c\<lparr>ops := ops c @ midpointPath_spec pts\<rparr>)"
proof -
  from assms have ne: "pts \<noteq> []" and l: "nat (int (length pts) - 1) = length pts - 1"
    by auto
  from assms ne show ?thesis
    by (simp add: smoothPath_def smoothLoop_trace js_prop_def js_index_def midpointPath_spec_def
        emit_def l)
qed

lemma smoothPath_short: "length pts < 2 \<Longrightarrow> smoothPath c pts = Inr c"
  by (simp add: smoothPath_def)

lemma smoothPath_commands:
  "smoothPath c pts =
     Inr (c\<lparr>ops := ops c @ (if length pts < 2 then [] else midpointPath_spec pts)\<rparr>)"
  by (simp add: smoothPath_short smoothPath_trace)

lemma midpointPath_constant_y:
  assumes "2 \<le> length pts" and "\<forall>p \<in> set pts. y p = v"
  shows "\<forall>cmd \<in> set (midpointPath_spec pts). \<forall>u \<in> set (pathYs cmd). u = v"
proof -
  have n: "\<And>i. i < length pts \<Longrightarrow> y (pts ! i) = v"
    using assms(2) by simp
  from assms(1) have "0 < length pts" and "length pts - 1 < length pts" and "pts \<noteq> []"
    by auto
  then show ?thesis
    by (auto simp: midpointPath_spec_def interiorCurve_spec_def n)
qed

lemma midpointPath_no_stroke: "Stroke \<notin> set (midpointPath_spec pts)"
  by (auto simp: midpointPath_spec_def interiorCurve_spec_def)

subsection \<open>The points of an eyebrow\<close>

lemma length_eyebrowPoints: "length (eyebrowPoints c lms idxs st) = length idxs"
  by (simp add: eyebrowPoints_def Let_def)

lemma nth_eyebrowPoints:
  "k < length idxs \<Longrightarrow>
   eyebrowPoints c lms idxs st ! k =
     toCanvasPoint (real (width c)) (real (height c)) (getArchStrength (id_style st))
       (offsetY st * real (height c)) lms (length idxs) (idxs ! k) k"
  by (simp add: eyebrowPoints_def Let_def nth_enumerate_eq)

lemma toCanvasPoint_missing:
  "length lms \<le> i \<Longrightarrow> toCanvasPoint w h a oy lms n i k = \<lparr> x = 0, y = 0 \<rparr>"
  by (simp add: toCanvasPoint_def js_index_def)

lemma toCanvasPoint_present:
  "i < length lms \<Longrightarrow>
   toCanvasPoint w h a oy lms n i k =
     \<lparr> x = x (lms ! i) * w,
       y = y (lms ! i) * h + oy
           + - a * h * sin (pi * (if n = 1 then 0.5 else real k / (real n - 1))) \<rparr>"
  by (simp add: toCanvasPoint_def js_index_def Let_def)

subsection \<open>The commands of the two renderers\<close>

lemma drawOneSide_trace:
  assumes "idxs \<noteq> []"
  shows "drawOneSide c lms idxs st sd =
    Inr (c\<lparr>ops := ops c
      @ [Save, SetFilter ''blur(0.6px)'', SetStrokeStyle (color st),
         SetLineWidth (real (height c) * 0.012 * thickness st),
         SetLineCap ''round'', SetLineJoin ''round'']
      @ (if length idxs < 2 then [] else midpointPath_spec (eyebrowPoints c lms idxs st))
      @ [Stroke, SetGlobalAlpha 0.8]
      @ (if length idxs < 2 then []
         else midpointPath_spec
           (map (\<lambda>p. \<lparr> x = x p, y = y p - real (height c) * 0.012 * thickness st * 0.18 \<rparr>)
              (eyebrowPoints c lms idxs st)))
      @ [Stroke, SetGlobalAlpha 0.7]
      @ (if length idxs < 2 then []
         else midpointPath_spec
           (map (\<lambda>p. \<lparr> x = x p, y = y p + real (height c) * 0.012 * thickness st * 0.18 \<rparr>)
              (eyebrowPoints c lms idxs st)))
      @ [Stroke, Restore]\<rparr>)"
  using assms
  by (simp add: drawOneSide_def Let_def smoothPath_commands emit_def length_eyebrowPoints)

lemma drawOneSide_main_stroke:
  assumes "idxs \<noteq> []"
  shows "\<exists>rest. drawOneSide c lms idxs st sd =
    Inr (c\<lparr>ops := ops c
      @ [Save, SetFilter ''blur(0.6px)'', SetStrokeStyle (color st),
         SetLineWidth (real (height c) * 0.012 * thickness st),
         SetLineCap ''round'', SetLineJoin ''round'']
      @ (if length idxs < 2 then [] else midpointPath_spec (eyebrowPoints c lms idxs st))
      @ Stroke # rest\<rparr>)"
  unfolding drawOneSide_trace [OF assms]
  by (rule exI [of _ "SetGlobalAlpha 0.8
      # (if length idxs < 2 then []
         else midpointPath_spec
           (map (\<lambda>p. \<lparr> x = x p, y = y p - real (height c) * 0.012 * thickness st * 0.18 \<rparr>)
              (eyebrowPoints c lms idxs st)))
      @ [Stroke, SetGlobalAlpha 0.7]
      @ (if length idxs < 2 then []
         else midpointPath_spec
           (map (\<lambda>p. \<lparr> x = x p, y = y p + real (height c) * 0.012 * thickness st * 0.18 \<rparr>)
              (eyebrowPoints c lms idxs st)))
      @ [Stroke, Restore]"]) simp

lemma drawOneSide_total:
  "\<exists>c'. drawOneSide c lms idxs st sd = Inr c' \<and> width c' = width c \<and> height c' = height c"
proof (cases "idxs = []")
  case True
  then show ?thesis by (simp add: drawOneSide_def)
next
  case False
  then show ?thesis by (simp add: drawOneSide_trace)
qed

lemma drawEyebrows_total:
  "\<exists>c'. drawEyebrows c lms st = Inr c' \<and> width c' = width c \<and> height c' = height c"
proof -
  obtain c1 where 1: "drawOneSide c lms LEFT_EYEBROW st L = Inr c1"
      "width c1 = width c" "height c1 = height c"
    using drawOneSide_total by blast
  obtain c2 where 2: "drawOneSide c1 lms RIGHT_EYEBROW st R = Inr c2"
      "width c2 = width c1" "height c2 = height c1"
    using drawOneSide_total by blast
  from 1 2 show ?thesis by (simp add: drawEyebrows_def)
qed

lemma drawEyebrows_no_error: "drawEyebrows c lms st \<noteq> Inl e"
  using drawEyebrows_total [of c lms st] by auto

lemma fillVertex_size:
  "width (fillVertex lms st p c) = width c \<and> height (fillVertex lms st p c) = height c"
  by (cases p) (simp add: fillVertex_def emit_def Let_def split: option.split)

lemma fold_fillVertex_ops:
  "ops (fold (fillVertex lms st) ps c) =
     ops c @ map (\<lambda>(idx, i). (if idx = 0 then MoveTo else LineTo)
                    (x (lms ! i) * real (width c))
                    ((y (lms ! i) + offsetY st) * real (height c)))
               (filter (\<lambda>(idx, i). i < length lms) ps)"
proof (induction ps arbitrary: c)
  case Nil
  then show ?case by simp
next
  case (Cons p ps)
  obtain idx i where p: "p = (idx, i)" by (cases p)
  show ?case
    by (simp add: Cons.IH fillVertex_size)
       (simp add: p fillVertex_def js_index_def emit_def Let_def)
qed

lemma eyebrowPoints_canvas:
  "eyebrowPoints (c\<lparr>ops := v\<rparr>) lms idxs st = eyebrowPoints c lms idxs st"
  by (simp add: eyebrowPoints_def)

lemma scaledVertex_size:
  "width (scaledVertex sc lms st p c) = width c \<and> height (scaledVertex sc lms st p c) = height c"
  by (cases p) (simp add: scaledVertex_def emit_def Let_def split: option.split)

lemma fold_fillVertex:
  "fold (fillVertex lms st) ps c =
     c\<lparr>ops := ops c @ map (\<lambda>(idx, i). (if idx = 0 then MoveTo else LineTo)
                    (x (lms ! i) * real (width c))
                    ((y (lms ! i) + offsetY st) * real (height c)))
               (filter (\<lambda>(idx, i). i < length lms) ps)\<rparr>"
proof (induction ps arbitrary: c)
  case Nil
  then show ?case by simp
next
  case (Cons p ps)
  obtain idx i where p: "p = (idx, i)" by (cases p)
  show ?case
    by (simp add: Cons.IH fillVertex_size)
       (simp add: p fillVertex_def js_index_def emit_def Let_def)
qed

lemma fold_scaledVertex:
  "fold (scaledVertex sc lms st) ps c =
     c\<lparr>ops := ops c @ map (\<lambda>(idx, i). (if idx = 0 then MoveTo else LineTo)
                    (0.5 * real (width c) + (x (lms ! i) * real (width c) - 0.5 * real (width c)) * sc)
                    (0.4 * real (height c)
                      + ((y (lms ! i) + offsetY st) * real (height c) - 0.4 * real (height c)) * sc))
               (filter (\<lambda>(idx, i). i < length lms) ps)\<rparr>"
proof (induction ps arbitrary: c)
  case Nil
  then show ?case by simp
next
  case (Cons p ps)
  obtain idx i where p: "p = (idx, i)" by (cases p)
  show ?case
    by (simp add: Cons.IH scaledVertex_size)
       (simp add: p scaledVertex_def js_index_def emit_def Let_def)
qed

lemma drawOneSide_fill_trace:
  assumes "idxs \<noteq> []"
  shows "drawOneSide_fill c lms idxs st =
    Inr (c\<lparr>ops := ops c
      @ [SetFillStyle (color st), Save, SetFilter ''blur(0.6px)'', BeginPath]
      @ map (\<lambda>(idx, i). (if idx = 0 then MoveTo else LineTo)
                (x (lms ! i) * real (width c))
                ((y (lms ! i) + offsetY st) * real (height c)))
          (filter (\<lambda>(idx, i). i < length lms) (enumerate 0 idxs))
      @ [ClosePath, Fill]
      @ (if thickness st > 1 then
           [BeginPath]
           @ map (\<lambda>(idx, i). (if idx = 0 then MoveTo else LineTo)
                  (0.5 * real (width c)
                    + (x (lms ! i) * real (width c) - 0.5 * real (width c))
                      * (1 + (thickness st - 1) * 0.06))
                  (0.4 * real (height c)
                    + ((y (lms ! i) + offsetY st) * real (height c) - 0.4 * real (height c))
                      * (1 + (thickness st - 1) * 0.06)))
               (filter (\<lambda>(idx, i). i < length lms) (enumerate 0 idxs))
           @ [ClosePath, Fill]
         else [])
      @ [Restore]\<rparr>)"
  using assms
  by (simp add: drawOneSide_fill_def Let_def fold_fillVertex fold_scaledVertex emit_def)

lemma drawEyebrows_trace:
  "drawEyebrows c lms st =
    Inr (c\<lparr>ops := ops c
      @ concat (map (\<lambda>idxs.
          [Save, SetFilter ''blur(0.6px)'', SetStrokeStyle (color st),
           SetLineWidth (real (height c) * 0.012 * thickness st),
           SetLineCap ''round'', SetLineJoin ''round'']
          @ midpointPath_spec (eyebrowPoints c lms idxs st)
          @ [Stroke, SetGlobalAlpha 0.8]
          @ midpointPath_spec
              (map (\<lambda>p. \<lparr> x = x p, y = y p - real (height c) * 0.012 * thickness st * 0.18 \<rparr>)
                 (eyebrowPoints c lms idxs st))
          @ [Stroke, SetGlobalAlpha 0.7]
          @ midpointPath_spec
              (map (\<lambda>p. \<lparr> x = x p, y = y p + real (height c) * 0.012 * thickness st * 0.18 \<rparr>)
                 (eyebrowPoints c lms idxs st))
          @ [Stroke, Restore]) [LEFT_EYEBROW, RIGHT_EYEBROW])\<rparr>)"
proof -
  have l: "LEFT_EYEBROW \<noteq> []" "\<not> length LEFT_EYEBROW < 2"
    and r: "RIGHT_EYEBROW \<noteq> []" "\<not> length RIGHT_EYEBROW < 2"
    by (simp_all add: LEFT_EYEBROW_def RIGHT_EYEBROW_def)
  show ?thesis
    unfolding drawEyebrows_def drawOneSide_trace [OF l(1)]
    by (simp add: drawOneSide_trace [OF r(1)] l r eyebrowPoints_canvas)
qed

lemma drawEyebrows_fill_trace:
  "drawEyebrows_fill c lms st =
    Inr (c\<lparr>ops := ops c
      @ concat (map (\<lambda>idxs.
          [SetFillStyle (color st), Save, SetFilter ''blur(0.6px)'', BeginPath]
          @ map (\<lambda>(idx, i). (if idx = 0 then MoveTo else LineTo)
                    (x (lms ! i) * real (width c))
                    ((y (lms ! i) + offsetY st) * real (height c)))
              (filter (\<lambda>(idx, i). i < length lms) (enumerate 0 idxs))
          @ [ClosePath, Fill]
          @ (if thickness st > 1 then
               [BeginPath]
               @ map (\<lambda>(idx, i). (if idx = 0 then MoveTo else LineTo)
                      (0.5 * real (width c)
                        + (x (lms ! i) * real (width c) - 0.5 * real (width c))
                          * (1 + (thickness st - 1) * 0.06))
                      (0.4 * real (height c)
                        + ((y (lms ! i) + offsetY st) * real (height c) - 0.4 * real (height c))
                          * (1 + (thickness st - 1) * 0.06)))
                   (filter (\<lambda>(idx, i). i < length lms) (enumerate 0 idxs))
               @ [ClosePath, Fill]
             else [])
          @ [Restore]) [LEFT_EYEBROW, RIGHT_EYEBROW])\<rparr>)"
proof -
  have l: "LEFT_EYEBROW \<noteq> []" and r: "RIGHT_EYEBROW \<noteq> []"
    by (simp_all add: LEFT_EYEBROW_def RIGHT_EYEBROW_def)
  show ?thesis
    unfolding drawEyebrows_fill_def drawOneSide_fill_trace [OF l]
    by (simp add: drawOneSide_fill_trace [OF r])
qed

subsection \<open>The catalog\<close>

lemma find_distinct_key:
  "distinct (map f xs) \<Longrightarrow> s \<in> set xs \<Longrightarrow> find (\<lambda>t. f t = f s) xs = Some s"
  by (induction xs) (auto simp: image_iff)

lemma find_absent_key:
  "(\<forall>s \<in> set xs. f s \<noteq> k) \<Longrightarrow> find (\<lambda>t. f t = k) xs = None"
  by (induction xs) auto

lemma styles_distinct_ids: "distinct (map id_style styles)"
  by (simp add: styles_def)

lemma styles_first: "js_index styles 0 = Some (styles ! 0)"
  by (simp add: js_index_def styles_def)

lemma resolveStyle_styles: "\<exists>st. resolveStyle styles sid = Some st"
  by (simp add: resolveStyle_def styles_first split: option.split)

lemma styles_natural: "id_style (styles ! 0) = ''natural''" "offsetY (styles ! 0) = 0"
  "thickness (styles ! 0) = 1" "color (styles ! 0) = ''rgba(60, 40, 30, 0.75)''"
  by (simp_all add: styles_def)

lemma natural_points:
  assumes "\<forall>i \<in> set idxs. i < length lms \<and> y (lms ! i) = v"
  shows "eyebrowPoints c lms idxs (styles ! 0) =
    map (\<lambda>i. \<lparr> x = x (lms ! i) * real (width c), y = v * real (height c) \<rparr>) idxs"
proof (rule nth_equalityI)
  show "length (eyebrowPoints c lms idxs (styles ! 0)) =
    length (map (\<lambda>i. \<lparr> x = x (lms ! i) * real (width c), y = v * real (height c) \<rparr>) idxs)"
    by (simp add: length_eyebrowPoints)
next
  fix k assume "k < length (eyebrowPoints c lms idxs (styles ! 0))"
  then have k: "k < length idxs" by (simp add: length_eyebrowPoints)
  with assms have p: "idxs ! k < length lms" "y (lms ! (idxs ! k)) = v" by simp_all
  show "eyebrowPoints c lms idxs (styles ! 0) ! k =
    map (\<lambda>i. \<lparr> x = x (lms ! i) * real (width c), y = v * real (height c) \<rparr>) idxs ! k"
    using k p
    by (simp add: nth_eyebrowPoints toCanvasPoint_present styles_natural getArchStrength_def)
qed

subsection \<open>One iteration of the frame loop, and runs of it\<close>

text \<open>
  An iteration never throws. It moves the last processed timestamp to its own timestamp
  when it reaches the clock read, and calls the detector when moreover the two differ.
\<close>

lemma render_effect:
  "\<exists>s'. render s f = Inr s'
     \<and> lastVideoTime s' = (if reachesClock f then nowInMs f else lastVideoTime s)
     \<and> detectCalls s' =
         (if reachesClock f \<and> nowInMs f \<noteq> lastVideoTime s
          then detectCalls s @ [nowInMs f] else detectCalls s)"
proof (cases "reachesClock f \<and> nowInMs f \<noteq> lastVideoTime s")
  case False
  then show ?thesis
    by (auto simp: render_def reachesClock_def Let_def)
next
  case True
  let ?c1 = "if width (canvas s) \<noteq> videoWidth f \<or> height (canvas s) \<noteq> videoHeight f
             then (canvas s)\<lparr>width := videoWidth f, height := videoHeight f\<rparr> else canvas s"
  let ?c2 = "emit ?c1 (DrawImage 0 0 (real (videoWidth f)) (real (videoHeight f)))"
  show ?thesis
  proof (cases "faceLandmarks f")
    case None
    with True show ?thesis
      by (simp add: render_def reachesClock_def Let_def)
  next
    case (Some faces)
    show ?thesis
    proof (cases "length faces = 0")
      case True
      with \<open>reachesClock f \<and> nowInMs f \<noteq> lastVideoTime s\<close> Some show ?thesis
        by (simp add: render_def reachesClock_def Let_def)
    next
      case False
      then have idx: "js_prop (js_index faces 0) = Inr (faces ! 0)"
        by (simp add: js_prop_def js_index_def)
      obtain st where st: "resolveStyle styles (selectedStyleId f) = Some st"
        using resolveStyle_styles by blast
      from True Some False idx st show ?thesis
        by (simp add: render_def reachesClock_def Let_def js_prop_def drawEyebrows_no_error
            split: sum.split)
    qed
  qed
qed

lemma run_total: "\<exists>s'. run s fs = Inr s'"
proof (induction fs arbitrary: s)
  case Nil
  show ?case by simp
next
  case (Cons f fs)
  obtain s1 where "render s f = Inr s1" using render_effect [of s f] by blast
  with Cons.IH [of s1] show ?case by simp
qed

lemma run_step:
  "\<exists>s1. run s (f # fs) = run s1 fs
     \<and> lastVideoTime s1 = (if reachesClock f then nowInMs f else lastVideoTime s)
     \<and> detectCalls s1 =
         (if reachesClock f \<and> nowInMs f \<noteq> lastVideoTime s
          then detectCalls s @ [nowInMs f] else detectCalls s)"
  using render_effect [of s f] by auto

text \<open>
  The trace of detector calls ends with the last processed timestamp. Hence two calls in
  a row never carry the same timestamp, and under a clock that never goes back the
  timestamps of the calls increase strictly.
\<close>

lemma run_adjacent:
  assumes "distinct_adj (detectCalls s)"
    and "detectCalls s \<noteq> [] \<longrightarrow> last (detectCalls s) = lastVideoTime s"
    and "run s fs = Inr s'"
  shows "distinct_adj (detectCalls s')
    \<and> (detectCalls s' \<noteq> [] \<longrightarrow> last (detectCalls s') = lastVideoTime s')"
  using assms
proof (induction fs arbitrary: s)
  case Nil
  then show ?case by simp
next
  case (Cons f fs)
  obtain s1 where s1: "render s f = Inr s1"
      "lastVideoTime s1 = (if reachesClock f then nowInMs f else lastVideoTime s)"
      "detectCalls s1 =
         (if reachesClock f \<and> nowInMs f \<noteq> lastVideoTime s
          then detectCalls s @ [nowInMs f] else detectCalls s)"
    using render_effect [of s f] by blast
  have a: "distinct_adj (detectCalls s1)"
    using Cons.prems(1,2) s1(3) by (auto simp: distinct_adj_append_iff)
  have b: "detectCalls s1 \<noteq> [] \<longrightarrow> last (detectCalls s1) = lastVideoTime s1"
    using Cons.prems(2) s1(2,3) by auto
  from Cons.prems(3) s1(1) have "run s1 fs = Inr s'" by simp
  with Cons.IH [OF a b] show ?case by simp
qed

lemma run_increasing:
  assumes "sorted_wrt (<) (detectCalls s)"
    and "detectCalls s \<noteq> [] \<longrightarrow> last (detectCalls s) = lastVideoTime s"
    and "sorted (map nowInMs fs)"
    and "detectCalls s \<noteq> [] \<longrightarrow> (\<forall>f \<in> set fs. lastVideoTime s \<le> nowInMs f)"
    and "run s fs = Inr s'"
  shows "sorted_wrt (<) (detectCalls s')"
  using assms
proof (induction fs arbitrary: s)
  case Nil
  then show ?case by simp
next
  case (Cons f fs)
  obtain s1 where s1: "render s f = Inr s1"
      "lastVideoTime s1 = (if reachesClock f then nowInMs f else lastVideoTime s)"
      "detectCalls s1 =
         (if reachesClock f \<and> nowInMs f \<noteq> lastVideoTime s
          then detectCalls s @ [nowInMs f] else detectCalls s)"
    using render_effect [of s f] by blast
  have below: "\<forall>t \<in> set (detectCalls s). t \<le> lastVideoTime s"
  proof (cases "detectCalls s = []")
    case True
    then show ?thesis by simp
  next
    case False
    then obtain ys z where yz: "detectCalls s = ys @ [z]"
      by (metis rev_exhaust)
    with Cons.prems(2) have "z = lastVideoTime s" by simp
    with Cons.prems(1) yz show ?thesis
      by (auto simp: sorted_wrt_append)
  qed
  have a: "sorted_wrt (<) (detectCalls s1)"
  proof (cases "reachesClock f \<and> nowInMs f \<noteq> lastVideoTime s")
    case False
    with s1(3) Cons.prems(1) show ?thesis by simp
  next
    case True
    show ?thesis
    proof (cases "detectCalls s = []")
      case True
      with s1(3) show ?thesis by simp
    next
      case False
      with Cons.prems(4) have "lastVideoTime s \<le> nowInMs f" by simp
      with True have "lastVideoTime s < nowInMs f" by simp
      with below have "\<forall>t \<in> set (detectCalls s). t < nowInMs f" by fastforce
      with True s1(3) Cons.prems(1) show ?thesis
        by (simp add: sorted_wrt_append)
    qed
  qed
  have b: "detectCalls s1 \<noteq> [] \<longrightarrow> last (detectCalls s1) = lastVideoTime s1"
    using Cons.prems(2) s1(2,3) by auto
  have c: "sorted (map nowInMs fs)"
    using Cons.prems(3) by simp
  have d: "detectCalls s1 \<noteq> [] \<longrightarrow> (\<forall>g \<in> set fs. lastVideoTime s1 \<le> nowInMs g)"
    using Cons.prems(3,4) s1(2,3) by (auto split: if_splits)
  from Cons.prems(5) s1(1) have "run s1 fs = Inr s'" by simp
  with Cons.IH [OF a b c d] show ?case by simp
qed

lemma run_four_frames:
  assumes "reachesClock f1" "reachesClock f2" "reachesClock f3" "reachesClock f4"
    and "nowInMs f1 = T" "nowInMs f2 = T" "nowInMs f3 = T" "nowInMs f4 = T + 1"
    and "lastVideoTime s \<noteq> T"
  shows "\<exists>s4. run s [f1, f2, f3, f4] = Inr s4 \<and> detectCalls s4 = detectCalls s @ [T, T + 1]"
proof -
  obtain s1 where 1: "run s [f1, f2, f3, f4] = run s1 [f2, f3, f4]"
      "lastVideoTime s1 = T" "detectCalls s1 = detectCalls s @ [T]"
    using run_step [of s f1 "[f2, f3, f4]"] assms by auto
  obtain s2 where 2: "run s1 [f2, f3, f4] = run s2 [f3, f4]"
      "lastVideoTime s2 = T" "detectCalls s2 = detectCalls s @ [T]"
    using run_step [of s1 f2 "[f3, f4]"] assms 1 by auto
  obtain s3 where 3: "run s2 [f3, f4] = run s3 [f4]"
      "lastVideoTime s3 = T" "detectCalls s3 = detectCalls s @ [T]"
    using run_step [of s2 f3 "[f4]"] assms 2 by auto
  obtain s4 where 4: "run s3 [f4] = run s4 []"
      "detectCalls s4 = detectCalls s @ [T, T + 1]"
    using run_step [of s3 f4 "[]"] assms 3 by auto
  from 1 2 3 4 show ?thesis by simp
qed

section \<open>Verified properties\<close>

subsection \<open>The frame loop\<close>

text \<open>
  Claim C1. Frame timestamps are values of \<^verbatim>\<open>performance.now()\<close>, a clock that is
  monotonically non-decreasing (the data model of the specification says so of the
  frame timestamp). From a state with an empty trace of detector calls, every sequence
  of iterations runs without error, no two consecutive detector calls carry the same
  timestamp, and when the timestamps of the iterations are non-decreasing no timestamp
  is given to the detector twice. An iteration whose timestamp equals the last processed
  one returns without calling the detector. For four iterations that reach the clock read
  with timestamps \<open>T, T, T, T + 1\<close>, the last processed timestamp being different from
  \<open>T\<close> at the start, exactly two calls occur, with \<open>T\<close> and \<open>T + 1\<close>.
\<close>

theorem inference_never_repeats_a_timestamp:
  assumes "detectCalls s = []"
  shows "(\<exists>s'. run s fs = Inr s'
            \<and> distinct_adj (detectCalls s')
            \<and> (sorted (map nowInMs fs) \<longrightarrow> distinct (detectCalls s')))
    \<and> (nowInMs f = lastVideoTime s \<longrightarrow>
          (\<exists>s1. render s f = Inr s1 \<and> detectCalls s1 = detectCalls s))
    \<and> (reachesClock f1 \<and> reachesClock f2 \<and> reachesClock f3 \<and> reachesClock f4
        \<and> nowInMs f1 = T \<and> nowInMs f2 = T \<and> nowInMs f3 = T \<and> nowInMs f4 = T + 1
        \<and> lastVideoTime s \<noteq> T \<longrightarrow>
          (\<exists>s4. run s [f1, f2, f3, f4] = Inr s4 \<and> detectCalls s4 = [T, T + 1]
                \<and> length (detectCalls s4) = 2))"
proof -
  obtain s' where r: "run s fs = Inr s'"
    using run_total by blast
  have adj: "distinct_adj (detectCalls s')"
    using run_adjacent [of s fs s'] assms r by simp
  have inc: "sorted (map nowInMs fs) \<longrightarrow> distinct (detectCalls s')"
  proof
    assume "sorted (map nowInMs fs)"
    then have "sorted_wrt (<) (detectCalls s')"
      using run_increasing [of s fs s'] assms r by simp
    then show "distinct (detectCalls s')"
      by (simp add: strict_sorted_iff)
  qed
  have a: "\<exists>s'. run s fs = Inr s' \<and> distinct_adj (detectCalls s')
            \<and> (sorted (map nowInMs fs) \<longrightarrow> distinct (detectCalls s'))"
    using r adj inc by blast
  have b: "nowInMs f = lastVideoTime s \<longrightarrow>
          (\<exists>s1. render s f = Inr s1 \<and> detectCalls s1 = detectCalls s)"
    using render_effect [of s f] by auto
  have c: "reachesClock f1 \<and> reachesClock f2 \<and> reachesClock f3 \<and> reachesClock f4
        \<and> nowInMs f1 = T \<and> nowInMs f2 = T \<and> nowInMs f3 = T \<and> nowInMs f4 = T + 1
        \<and> lastVideoTime s \<noteq> T \<longrightarrow>
          (\<exists>s4. run s [f1, f2, f3, f4] = Inr s4 \<and> detectCalls s4 = [T, T + 1]
                \<and> length (detectCalls s4) = 2)"
  proof
    assume h: "reachesClock f1 \<and> reachesClock f2 \<and> reachesClock f3 \<and> reachesClock f4
        \<and> nowInMs f1 = T \<and> nowInMs f2 = T \<and> nowInMs f3 = T \<and> nowInMs f4 = T + 1
        \<and> lastVideoTime s \<noteq> T"
    then obtain s4 where "run s [f1, f2, f3, f4] = Inr s4"
        "detectCalls s4 = detectCalls s @ [T, T + 1]"
      using run_four_frames [of f1 f2 f3 f4 T s] by blast
    with assms show "\<exists>s4. run s [f1, f2, f3, f4] = Inr s4 \<and> detectCalls s4 = [T, T + 1]
                \<and> length (detectCalls s4) = 2"
      by simp
  qed
  from a b c show ?thesis by blast
qed

theorem inference_never_repeats_a_timestamp_witness:
  "\<exists>s4. run (initStudio \<lparr> width = 300, height = 150, ops = [] \<rparr>)
      [\<lparr> readyState = 4, videoWidth = 640, videoHeight = 480, landmarker = True,
         landmarkerReady = True, nowInMs = 16, faceLandmarks = Some [],
         selectedStyleId = ''natural'' \<rparr>,
       \<lparr> readyState = 4, videoWidth = 640, videoHeight = 480, landmarker = True,
         landmarkerReady = True, nowInMs = 16, faceLandmarks = Some [],
         selectedStyleId = ''natural'' \<rparr>,
       \<lparr> readyState = 4, videoWidth = 640, videoHeight = 480, landmarker = True,
         landmarkerReady = True, nowInMs = 16, faceLandmarks = Some [],
         selectedStyleId = ''natural'' \<rparr>,
       \<lparr> readyState = 4, videoWidth = 640, videoHeight = 480, landmarker = True,
         landmarkerReady = True, nowInMs = 17, faceLandmarks = Some [],
         selectedStyleId = ''natural'' \<rparr>] = Inr s4
     \<and> detectCalls s4 = [16, 17] \<and> distinct (detectCalls s4)"
proof -
  let ?s = "initStudio \<lparr> width = 300, height = 150, ops = [] \<rparr>"
  let ?f = "\<lparr> readyState = 4, videoWidth = 640, videoHeight = 480, landmarker = True,
         landmarkerReady = True, nowInMs = 16, faceLandmarks = Some [],
         selectedStyleId = ''natural'' \<rparr>"
  let ?g = "\<lparr> readyState = 4, videoWidth = 640, videoHeight = 480, landmarker = True,
         landmarkerReady = True, nowInMs = 17, faceLandmarks = Some [],
         selectedStyleId = ''natural'' \<rparr>"
  have e: "detectCalls ?s = []" by (simp add: initStudio_def)
  have h: "reachesClock ?f \<and> reachesClock ?f \<and> reachesClock ?f \<and> reachesClock ?g
        \<and> nowInMs ?f = 16 \<and> nowInMs ?f = 16 \<and> nowInMs ?f = 16 \<and> nowInMs ?g = 16 + 1
        \<and> lastVideoTime ?s \<noteq> 16"
    by (simp add: reachesClock_def initStudio_def)
  have m: "sorted (map nowInMs [?f, ?f, ?f, ?g])" by simp
  note t = inference_never_repeats_a_timestamp [OF e, of "[?f, ?f, ?f, ?g]" ?f ?f ?f ?f ?g 16]
  from t h obtain s4 where 4: "run ?s [?f, ?f, ?f, ?g] = Inr s4" "detectCalls s4 = [16, 16 + 1]"
    by blast
  from t m obtain s' where 5: "run ?s [?f, ?f, ?f, ?g] = Inr s'" "distinct (detectCalls s')"
    by blast
  from 4 5 have "run ?s [?f, ?f, ?f, ?g] = Inr s4 \<and> detectCalls s4 = [16, 17]
      \<and> distinct (detectCalls s4)"
    by simp
  then show ?thesis ..
qed

subsection \<open>Style selection\<close>

text \<open>
  Claim C2. For every style identifier, resolving the selection against the catalog
  yields the catalog entry with that identifier when there is one, and otherwise the first
  entry of the catalog, which is the style \<open>natural\<close>; in both cases a style is
  obtained, so the property reads that follow raise no error.
\<close>

theorem resolveStyle_catalog:
  "(\<forall>s \<in> set styles. id_style s = sid \<longrightarrow> resolveStyle styles sid = Some s)
   \<and> ((\<forall>s \<in> set styles. id_style s \<noteq> sid) \<longrightarrow> resolveStyle styles sid = Some (styles ! 0))
   \<and> id_style (styles ! 0) = ''natural''
   \<and> (\<exists>s. js_prop (resolveStyle styles sid) = Inr s)"
proof -
  have a: "\<forall>s \<in> set styles. id_style s = sid \<longrightarrow> resolveStyle styles sid = Some s"
  proof (intro ballI impI)
    fix s assume "s \<in> set styles" and "id_style s = sid"
    then show "resolveStyle styles sid = Some s"
      using find_distinct_key [OF styles_distinct_ids, of s]
      by (auto simp: resolveStyle_def)
  qed
  have b: "(\<forall>s \<in> set styles. id_style s \<noteq> sid) \<longrightarrow> resolveStyle styles sid = Some (styles ! 0)"
    by (auto simp: resolveStyle_def find_absent_key styles_first)
  have c: "id_style (styles ! 0) = ''natural''"
    by (simp add: styles_def)
  have d: "\<exists>s. js_prop (resolveStyle styles sid) = Inr s"
  proof (cases "\<forall>s \<in> set styles. id_style s \<noteq> sid")
    case True
    with b show ?thesis by (simp add: js_prop_def)
  next
    case False
    with a show ?thesis by (auto simp: js_prop_def)
  qed
  from a b c d show ?thesis by blast
qed

theorem resolveStyle_catalog_witness:
  "resolveStyle styles ''arch'' = Some (styles ! 3)
   \<and> resolveStyle styles ''bushy'' = Some (styles ! 0)
   \<and> id_style (styles ! 0) = ''natural''"
proof -
  have m: "styles ! 3 \<in> set styles" "id_style (styles ! 3) = ''arch''"
    by (simp_all add: styles_def)
  have n: "\<forall>s \<in> set styles. id_style s \<noteq> ''bushy''"
    by (simp add: styles_def)
  from resolveStyle_catalog [of "''arch''"] m
  have 1: "resolveStyle styles ''arch'' = Some (styles ! 3)" by blast
  from resolveStyle_catalog [of "''bushy''"] n
  have 2: "resolveStyle styles ''bushy'' = Some (styles ! 0)" by blast
  from resolveStyle_catalog [of "''bushy''"]
  have 3: "id_style (styles ! 0) = ''natural''" by blast
  from 1 2 3 show ?thesis by blast
qed

subsection \<open>The smoothed path\<close>

text \<open>
  Claim C3. For every point sequence \<open>P\<^sub>0 \<dots> P\<^sub>n\<close> with \<open>n \<ge> 1\<close> (at least two
  points), \<^const>\<open>smoothPath\<close> succeeds and appends exactly: a new path, a move to
  \<open>P\<^sub>0\<close>, for each interior index \<open>1 \<le> i \<le> n - 1\<close> a quadratic curve with control
  point \<open>P\<^sub>i\<close> and end point the midpoint of \<open>P\<^sub>i\<close> and \<open>P\<^sub>i\<^sub>+\<^sub>1\<close>, and a line to
  \<open>P\<^sub>n\<close>. Every control point of the path is an interior point.
\<close>

theorem smoothPath_midpoint_quadratics:
  assumes "2 \<le> length pts"
  shows "smoothPath c pts = Inr (c\<lparr>ops := ops c @ midpointPath_spec pts\<rparr>)
    \<and> midpointPath_spec pts =
        [BeginPath, MoveTo (x (pts ! 0)) (y (pts ! 0))]
        @ map (\<lambda>i. QuadraticCurveTo (x (pts ! i)) (y (pts ! i))
                    ((x (pts ! i) + x (pts ! (i + 1))) / 2)
                    ((y (pts ! i) + y (pts ! (i + 1))) / 2))
              [1 ..< length pts - 1]
        @ [LineTo (x (pts ! (length pts - 1))) (y (pts ! (length pts - 1)))]
    \<and> (\<forall>cx cy ex ey. QuadraticCurveTo cx cy ex ey \<in> set (midpointPath_spec pts) \<longrightarrow>
          (\<exists>i. 1 \<le> i \<and> i \<le> length pts - 2 \<and> cx = x (pts ! i) \<and> cy = y (pts ! i)))"
proof -
  have a: "smoothPath c pts = Inr (c\<lparr>ops := ops c @ midpointPath_spec pts\<rparr>)"
    using assms by (rule smoothPath_trace)
  have b: "midpointPath_spec pts =
        [BeginPath, MoveTo (x (pts ! 0)) (y (pts ! 0))]
        @ map (\<lambda>i. QuadraticCurveTo (x (pts ! i)) (y (pts ! i))
                    ((x (pts ! i) + x (pts ! (i + 1))) / 2)
                    ((y (pts ! i) + y (pts ! (i + 1))) / 2))
              [1 ..< length pts - 1]
        @ [LineTo (x (pts ! (length pts - 1))) (y (pts ! (length pts - 1)))]"
    by (simp add: midpointPath_spec_def interiorCurve_spec_def)
  have c: "\<forall>cx cy ex ey. QuadraticCurveTo cx cy ex ey \<in> set (midpointPath_spec pts) \<longrightarrow>
          (\<exists>i. 1 \<le> i \<and> i \<le> length pts - 2 \<and> cx = x (pts ! i) \<and> cy = y (pts ! i))"
  proof (intro allI impI)
    fix cx cy ex ey
    assume "QuadraticCurveTo cx cy ex ey \<in> set (midpointPath_spec pts)"
    then obtain i where "1 \<le> i" "i < length pts - 1" "cx = x (pts ! i)" "cy = y (pts ! i)"
      unfolding b by auto
    then have "1 \<le> i \<and> i \<le> length pts - 2 \<and> cx = x (pts ! i) \<and> cy = y (pts ! i)"
      by auto
    then show "\<exists>i. 1 \<le> i \<and> i \<le> length pts - 2 \<and> cx = x (pts ! i) \<and> cy = y (pts ! i)" ..
  qed
  from a b c show ?thesis by blast
qed

theorem smoothPath_midpoint_quadratics_witness:
  "smoothPath \<lparr> width = 4, height = 4, ops = [] \<rparr>
      [\<lparr> x = 0, y = 0 \<rparr>, \<lparr> x = 2, y = 4 \<rparr>, \<lparr> x = 4, y = 0 \<rparr>, \<lparr> x = 6, y = 2 \<rparr>]
    = Inr \<lparr> width = 4, height = 4,
            ops = [BeginPath, MoveTo 0 0, QuadraticCurveTo 2 4 3 2, QuadraticCurveTo 4 0 5 1,
                   LineTo 6 2] \<rparr>"
  using smoothPath_midpoint_quadratics
    [of "[\<lparr> x = 0, y = 0 \<rparr>, \<lparr> x = 2, y = 4 \<rparr>, \<lparr> x = 4, y = 0 \<rparr>, \<lparr> x = 6, y = 2 \<rparr>]"
        "\<lparr> width = 4, height = 4, ops = [] \<rparr>"]
  by (simp add: upt_rec)

subsection \<open>The arch displacement\<close>

text \<open>
  Claim C4, as amended. In an index list of length \<open>L \<ge> 2\<close>, the point built at
  position \<open>idx\<close> from a landmark that is present in the landmark set has as vertical
  coordinate the pixel coordinate \<open>lm.y * height + offsetY * height\<close> plus the arch
  displacement \<open>- archStrength(style.id) * height * sin (pi * t)\<close> with
  \<open>t = idx / (L - 1)\<close>. The arch strength is looked up by the style identifier:
  \<open>natural\<close> 0.0, \<open>soft-flat\<close> 0.003, \<open>flat\<close> 0.0015, \<open>arch\<close> 0.007,
  \<open>strong-arch\<close> 0.011, which are its values on the five styles of the catalog; it does
  not change when the field \<open>offsetY\<close> of the style does.
\<close>

theorem arch_displacement_present:
  assumes "2 \<le> length idxs" and "k < length idxs" and "idxs ! k < length lms"
  shows "y (eyebrowPoints c lms idxs st ! k) =
           (y (lms ! (idxs ! k)) * real (height c) + offsetY st * real (height c))
           + - getArchStrength (id_style st) * real (height c)
               * sin (pi * (real k / (real (length idxs) - 1)))
    \<and> getArchStrength ''natural'' = 0.0
    \<and> getArchStrength ''soft-flat'' = 0.003
    \<and> getArchStrength ''flat'' = 0.0015
    \<and> getArchStrength ''arch'' = 0.007
    \<and> getArchStrength ''strong-arch'' = 0.011
    \<and> map (\<lambda>s. getArchStrength (id_style s)) styles = [0.0, 0.003, 0.0015, 0.007, 0.011]
    \<and> getArchStrength (id_style (st\<lparr>offsetY := v\<rparr>)) = getArchStrength (id_style st)"
proof -
  from assms have n: "length idxs \<noteq> 1" by simp
  have a: "y (eyebrowPoints c lms idxs st ! k) =
           (y (lms ! (idxs ! k)) * real (height c) + offsetY st * real (height c))
           + - getArchStrength (id_style st) * real (height c)
               * sin (pi * (real k / (real (length idxs) - 1)))"
    using assms n by (simp add: nth_eyebrowPoints toCanvasPoint_present)
  have b: "getArchStrength ''natural'' = 0.0 \<and> getArchStrength ''soft-flat'' = 0.003
    \<and> getArchStrength ''flat'' = 0.0015 \<and> getArchStrength ''arch'' = 0.007
    \<and> getArchStrength ''strong-arch'' = 0.011"
    by (simp add: getArchStrength_def)
  have c: "map (\<lambda>s. getArchStrength (id_style s)) styles = [0.0, 0.003, 0.0015, 0.007, 0.011]"
    by (simp add: styles_def getArchStrength_def)
  have d: "getArchStrength (id_style (st\<lparr>offsetY := v\<rparr>)) = getArchStrength (id_style st)"
    by simp
  from a b c d show ?thesis by blast
qed

theorem arch_displacement_present_witness:
  "2 \<le> length LEFT_EYEBROW \<and> (4::nat) < length LEFT_EYEBROW
   \<and> LEFT_EYEBROW ! 4 < length (replicate 478 \<lparr> x = 0.5, y = 0.4, z = None \<rparr>)
   \<and> y (eyebrowPoints \<lparr> width = 640, height = 480, ops = [] \<rparr>
          (replicate 478 \<lparr> x = 0.5, y = 0.4, z = None \<rparr>) LEFT_EYEBROW (styles ! 3) ! 4)
       = 192 + - 4.8 + - 3.36"
proof -
  have 1: "2 \<le> length LEFT_EYEBROW" and 2: "(4::nat) < length LEFT_EYEBROW"
    and 3: "LEFT_EYEBROW ! 4 < length (replicate 478 \<lparr> x = 0.5, y = 0.4, z = None \<rparr>)"
    by (simp_all add: LEFT_EYEBROW_def)
  have 4: "LEFT_EYEBROW ! 4 < 478" "length LEFT_EYEBROW = 9"
    by (simp_all add: LEFT_EYEBROW_def)
  have 5: "id_style (styles ! 3) = ''arch''" "offsetY (styles ! 3) = - 0.01"
    by (simp_all add: styles_def)
  from arch_displacement_present [OF 1 2 3, of "\<lparr> width = 640, height = 480, ops = [] \<rparr>" "styles ! 3"]
  have "y (eyebrowPoints \<lparr> width = 640, height = 480, ops = [] \<rparr>
          (replicate 478 \<lparr> x = 0.5, y = 0.4, z = None \<rparr>) LEFT_EYEBROW (styles ! 3) ! 4)
       = 192 + - 4.8 + - 3.36"
    using 4 5 by simp
  with 1 2 3 show ?thesis by blast
qed

text \<open>
  The displacement is not added at every position. With a landmark set of 60 points,
  position 4 of the left eyebrow refers to the missing landmark 66; in the style
  \<open>arch\<close> on a canvas of height 480 the displacement there would be \<open>-3.36\<close>, but the
  callback has returned the point \<open>(0, 0)\<close> before computing it.
\<close>

theorem arch_displacement_missing_landmark:
  "2 \<le> length LEFT_EYEBROW \<and> (4::nat) < length LEFT_EYEBROW
   \<and> - getArchStrength (id_style (styles ! 3))
        * real (height \<lparr> width = 640, height = 480, ops = [] \<rparr>)
        * sin (pi * (real 4 / (real (length LEFT_EYEBROW) - 1))) = - 3.36
   \<and> eyebrowPoints \<lparr> width = 640, height = 480, ops = [] \<rparr>
        (replicate 60 \<lparr> x = 0.5, y = 0.4, z = None \<rparr>) LEFT_EYEBROW (styles ! 3) ! 4
       = \<lparr> x = 0, y = 0 \<rparr>
   \<and> y (eyebrowPoints \<lparr> width = 640, height = 480, ops = [] \<rparr>
        (replicate 60 \<lparr> x = 0.5, y = 0.4, z = None \<rparr>) LEFT_EYEBROW (styles ! 3) ! 4)
       \<noteq> y \<lparr> x = 0, y = 0 \<rparr> + - 3.36"
proof -
  have 1: "2 \<le> length LEFT_EYEBROW" "(4::nat) < length LEFT_EYEBROW"
      "length LEFT_EYEBROW = 9" "LEFT_EYEBROW ! 4 = 66"
    by (simp_all add: LEFT_EYEBROW_def)
  have 2: "- getArchStrength (id_style (styles ! 3))
        * real (height \<lparr> width = 640, height = 480, ops = [] \<rparr>)
        * sin (pi * (real 4 / (real (length LEFT_EYEBROW) - 1))) = - 3.36"
    by (simp add: 1 styles_def getArchStrength_def)
  have 3: "eyebrowPoints \<lparr> width = 640, height = 480, ops = [] \<rparr>
        (replicate 60 \<lparr> x = 0.5, y = 0.4, z = None \<rparr>) LEFT_EYEBROW (styles ! 3) ! 4
       = \<lparr> x = 0, y = 0 \<rparr>"
    by (simp add: nth_eyebrowPoints toCanvasPoint_missing 1)
  from 1 2 3 show ?thesis by simp
qed

subsection \<open>The mapping to pixel coordinates\<close>

text \<open>
  Claim C5. For every position of an index list whose landmark is present, the stroke
  renderer builds the point with \<open>x = lm.x * width\<close> and
  \<open>y = lm.y * height + offsetY * height\<close>, to which the arch displacement is then
  added. The polygon-fill renderer adds for that landmark the vertex with
  \<open>x = lm.x * width\<close> and \<open>y = (lm.y + offsetY) * height\<close>, which is how that
  renderer writes the same mapping.
\<close>

theorem pixel_mapping:
  assumes "k < length idxs" and "idxs ! k < length lms"
  shows "x (eyebrowPoints c lms idxs st ! k) = x (lms ! (idxs ! k)) * real (width c)
    \<and> y (eyebrowPoints c lms idxs st ! k)
        - (- getArchStrength (id_style st) * real (height c)
             * sin (pi * (if length idxs = 1 then 0.5 else real k / (real (length idxs) - 1))))
      = y (lms ! (idxs ! k)) * real (height c) + offsetY st * real (height c)
    \<and> eyebrowPoints c lms idxs st ! k =
        \<lparr> x = x (lms ! (idxs ! k)) * real (width c),
          y = y (lms ! (idxs ! k)) * real (height c) + offsetY st * real (height c)
              + - getArchStrength (id_style st) * real (height c)
                * sin (pi * (if length idxs = 1 then 0.5
                             else real k / (real (length idxs) - 1))) \<rparr>
    \<and> fillVertex lms st (k, idxs ! k) c =
        emit c ((if k = 0 then MoveTo else LineTo)
                  (x (lms ! (idxs ! k)) * real (width c))
                  ((y (lms ! (idxs ! k)) + offsetY st) * real (height c)))"
  using assms
  by (simp add: nth_eyebrowPoints toCanvasPoint_present fillVertex_def js_index_def Let_def)

theorem pixel_mapping_witness:
  "(0::nat) < length LEFT_EYEBROW
   \<and> LEFT_EYEBROW ! 0 < length (replicate 478 \<lparr> x = 0.5, y = 0.25, z = None \<rparr>)
   \<and> eyebrowPoints \<lparr> width = 640, height = 480, ops = [] \<rparr>
          (replicate 478 \<lparr> x = 0.5, y = 0.25, z = None \<rparr>) LEFT_EYEBROW (styles ! 3) ! 0
       = \<lparr> x = 320, y = 120 + - 4.8 \<rparr>
   \<and> fillVertex (replicate 478 \<lparr> x = 0.5, y = 0.25, z = None \<rparr>) (styles ! 3) (0, LEFT_EYEBROW ! 0)
          \<lparr> width = 640, height = 480, ops = [] \<rparr>
       = \<lparr> width = 640, height = 480, ops = [MoveTo 320 ((0.25 + - 0.01) * 480)] \<rparr>"
proof -
  let ?c = "\<lparr> width = 640, height = 480, ops = [] \<rparr>"
  let ?lms = "replicate 478 \<lparr> x = 0.5, y = 0.25, z = None \<rparr>"
  have 1: "(0::nat) < length LEFT_EYEBROW"
    and 2: "LEFT_EYEBROW ! 0 < length ?lms"
    by (simp_all add: LEFT_EYEBROW_def)
  have 4: "LEFT_EYEBROW ! 0 < 478" "length LEFT_EYEBROW = 9"
    by (simp_all add: LEFT_EYEBROW_def)
  have 5: "id_style (styles ! 3) = ''arch''" "offsetY (styles ! 3) = - 0.01"
    by (simp_all add: styles_def)
  note t = pixel_mapping [OF 1 2, where c = ?c and st = "styles ! 3"]
  note t3 = t [THEN conjunct2, THEN conjunct2, THEN conjunct1]
  note t4 = t [THEN conjunct2, THEN conjunct2, THEN conjunct2]
  from t3 have d: "eyebrowPoints ?c ?lms LEFT_EYEBROW (styles ! 3) ! 0
       = \<lparr> x = 320, y = 120 + - 4.8 \<rparr>"
    using 4 5 by simp
  from t4 have e: "fillVertex ?lms (styles ! 3) (0, LEFT_EYEBROW ! 0) ?c
       = \<lparr> width = 640, height = 480, ops = [MoveTo 320 ((0.25 + - 0.01) * 480)] \<rparr>"
    using 4 5 by (simp add: emit_def)
  show ?thesis
    by (intro conjI 1 2 d e)
qed

subsection \<open>Landmark sets that are too short\<close>

text \<open>
  Claim C6. The largest landmark index the two eyebrow lists refer to is 383. For every
  landmark set, in particular one too short to hold that index, both renderers return
  without throwing, and what they draw is determined: \<^const>\<open>drawEyebrows\<close> appends, for
  the left and then the right eyebrow, the stroke attributes and the three stroked paths
  smoothed through the points of all 9 positions; \<^const>\<open>drawEyebrows_fill\<close> appends,
  for each eyebrow, the polygon (and, for a thickness above 1, its scaled copy) through
  the vertices of exactly the landmarks that are present, in order. A reference beyond
  the end of the set gives the point \<open>(0, 0)\<close> in the stroke renderer and adds no vertex
  in the polygon-fill renderer; a reference within the set gives the point, or vertex,
  computed from its landmark.
\<close>

theorem renderer_total_on_short_landmark_sets:
  "(let lineWidth = real (height c) * 0.012 * thickness st;
          strokes = (\<lambda>idxs.
            [Save, SetFilter ''blur(0.6px)'', SetStrokeStyle (color st),
             SetLineWidth lineWidth, SetLineCap ''round'', SetLineJoin ''round'']
            @ midpointPath_spec (eyebrowPoints c lms idxs st)
            @ [Stroke, SetGlobalAlpha 0.8]
            @ midpointPath_spec
                (map (\<lambda>p. \<lparr> x = x p, y = y p - lineWidth * 0.18 \<rparr>)
                   (eyebrowPoints c lms idxs st))
            @ [Stroke, SetGlobalAlpha 0.7]
            @ midpointPath_spec
                (map (\<lambda>p. \<lparr> x = x p, y = y p + lineWidth * 0.18 \<rparr>)
                   (eyebrowPoints c lms idxs st))
            @ [Stroke, Restore])
      in drawEyebrows c lms st =
           Inr (c\<lparr>ops := ops c @ strokes LEFT_EYEBROW @ strokes RIGHT_EYEBROW\<rparr>))
   \<and> (let w = real (width c);
          h = real (height c);
          scale = 1 + (thickness st - 1) * 0.06;
          present = (\<lambda>idxs. filter (\<lambda>(idx, i). i < length lms) (enumerate 0 idxs));
          vertex = (\<lambda>(idx, i). (if idx = 0 then MoveTo else LineTo)
                      (x (lms ! i) * w) ((y (lms ! i) + offsetY st) * h));
          scaled = (\<lambda>(idx, i). (if idx = 0 then MoveTo else LineTo)
                      (0.5 * w + (x (lms ! i) * w - 0.5 * w) * scale)
                      (0.4 * h + ((y (lms ! i) + offsetY st) * h - 0.4 * h) * scale));
          fills = (\<lambda>idxs.
            [SetFillStyle (color st), Save, SetFilter ''blur(0.6px)'', BeginPath]
            @ map vertex (present idxs)
            @ [ClosePath, Fill]
            @ (if thickness st > 1
               then [BeginPath] @ map scaled (present idxs) @ [ClosePath, Fill] else [])
            @ [Restore])
      in drawEyebrows_fill c lms st =
           Inr (c\<lparr>ops := ops c @ fills LEFT_EYEBROW @ fills RIGHT_EYEBROW\<rparr>))
   \<and> length (eyebrowPoints c lms LEFT_EYEBROW st) = length LEFT_EYEBROW
   \<and> length (eyebrowPoints c lms RIGHT_EYEBROW st) = length RIGHT_EYEBROW
   \<and> (\<forall>k < length idxs.
         (length lms \<le> idxs ! k \<longrightarrow>
            eyebrowPoints c lms idxs st ! k = \<lparr> x = 0, y = 0 \<rparr>
            \<and> fillVertex lms st (k, idxs ! k) c = c
            \<and> scaledVertex sc lms st (k, idxs ! k) c = c)
         \<and> (idxs ! k < length lms \<longrightarrow>
            eyebrowPoints c lms idxs st ! k =
              \<lparr> x = x (lms ! (idxs ! k)) * real (width c),
                y = y (lms ! (idxs ! k)) * real (height c) + offsetY st * real (height c)
                    + - getArchStrength (id_style st) * real (height c)
                      * sin (pi * (if length idxs = 1 then 0.5
                                   else real k / (real (length idxs) - 1))) \<rparr>))
   \<and> Max (set (LEFT_EYEBROW @ RIGHT_EYEBROW)) = 383
   \<and> (length lms \<le> 383 \<longrightarrow>
         eyebrowPoints c lms RIGHT_EYEBROW st ! 8 = \<lparr> x = 0, y = 0 \<rparr>)
   \<and> (idxs \<noteq> [] \<longrightarrow>
        (\<exists>rest. drawOneSide c lms idxs st sd =
           Inr (c\<lparr>ops := ops c
             @ [Save, SetFilter ''blur(0.6px)'', SetStrokeStyle (color st),
                SetLineWidth (real (height c) * 0.012 * thickness st),
                SetLineCap ''round'', SetLineJoin ''round'']
             @ (if length idxs < 2 then [] else midpointPath_spec (eyebrowPoints c lms idxs st))
             @ Stroke # rest\<rparr>)))
   \<and> ops (fold (fillVertex lms st) (enumerate 0 idxs) c) =
       ops c @ map (\<lambda>(idx, i). (if idx = 0 then MoveTo else LineTo)
                      (x (lms ! i) * real (width c))
                      ((y (lms ! i) + offsetY st) * real (height c)))
                 (filter (\<lambda>(idx, i). i < length lms) (enumerate 0 idxs))"
proof -
  have a: "(let lineWidth = real (height c) * 0.012 * thickness st;
          strokes = (\<lambda>idxs.
            [Save, SetFilter ''blur(0.6px)'', SetStrokeStyle (color st),
             SetLineWidth lineWidth, SetLineCap ''round'', SetLineJoin ''round'']
            @ midpointPath_spec (eyebrowPoints c lms idxs st)
            @ [Stroke, SetGlobalAlpha 0.8]
            @ midpointPath_spec
                (map (\<lambda>p. \<lparr> x = x p, y = y p - lineWidth * 0.18 \<rparr>)
                   (eyebrowPoints c lms idxs st))
            @ [Stroke, SetGlobalAlpha 0.7]
            @ midpointPath_spec
                (map (\<lambda>p. \<lparr> x = x p, y = y p + lineWidth * 0.18 \<rparr>)
                   (eyebrowPoints c lms idxs st))
            @ [Stroke, Restore])
      in drawEyebrows c lms st =
           Inr (c\<lparr>ops := ops c @ strokes LEFT_EYEBROW @ strokes RIGHT_EYEBROW\<rparr>))"
    unfolding Let_def drawEyebrows_trace by simp
  have b: "(let w = real (width c);
          h = real (height c);
          scale = 1 + (thickness st - 1) * 0.06;
          present = (\<lambda>idxs. filter (\<lambda>(idx, i). i < length lms) (enumerate 0 idxs));
          vertex = (\<lambda>(idx, i). (if idx = 0 then MoveTo else LineTo)
                      (x (lms ! i) * w) ((y (lms ! i) + offsetY st) * h));
          scaled = (\<lambda>(idx, i). (if idx = 0 then MoveTo else LineTo)
                      (0.5 * w + (x (lms ! i) * w - 0.5 * w) * scale)
                      (0.4 * h + ((y (lms ! i) + offsetY st) * h - 0.4 * h) * scale));
          fills = (\<lambda>idxs.
            [SetFillStyle (color st), Save, SetFilter ''blur(0.6px)'', BeginPath]
            @ map vertex (present idxs)
            @ [ClosePath, Fill]
            @ (if thickness st > 1
               then [BeginPath] @ map scaled (present idxs) @ [ClosePath, Fill] else [])
            @ [Restore])
      in drawEyebrows_fill c lms st =
           Inr (c\<lparr>ops := ops c @ fills LEFT_EYEBROW @ fills RIGHT_EYEBROW\<rparr>))"
    unfolding Let_def drawEyebrows_fill_trace by simp
  have n: "length (eyebrowPoints c lms LEFT_EYEBROW st) = length LEFT_EYEBROW"
    "length (eyebrowPoints c lms RIGHT_EYEBROW st) = length RIGHT_EYEBROW"
    by (simp_all add: length_eyebrowPoints)
  have d: "(\<forall>k < length idxs.
         (length lms \<le> idxs ! k \<longrightarrow>
            eyebrowPoints c lms idxs st ! k = \<lparr> x = 0, y = 0 \<rparr>
            \<and> fillVertex lms st (k, idxs ! k) c = c
            \<and> scaledVertex sc lms st (k, idxs ! k) c = c)
         \<and> (idxs ! k < length lms \<longrightarrow>
            eyebrowPoints c lms idxs st ! k =
              \<lparr> x = x (lms ! (idxs ! k)) * real (width c),
                y = y (lms ! (idxs ! k)) * real (height c) + offsetY st * real (height c)
                    + - getArchStrength (id_style st) * real (height c)
                      * sin (pi * (if length idxs = 1 then 0.5
                                   else real k / (real (length idxs) - 1))) \<rparr>))"
    by (simp add: nth_eyebrowPoints toCanvasPoint_missing toCanvasPoint_present fillVertex_def
        scaledVertex_def js_index_def)
  have e: "Max (set (LEFT_EYEBROW @ RIGHT_EYEBROW)) = 383"
    by (simp add: LEFT_EYEBROW_def RIGHT_EYEBROW_def)
  have f: "length lms \<le> 383 \<longrightarrow>
         eyebrowPoints c lms RIGHT_EYEBROW st ! 8 = \<lparr> x = 0, y = 0 \<rparr>"
  proof
    assume l: "length lms \<le> 383"
    have "(8::nat) < length RIGHT_EYEBROW" "RIGHT_EYEBROW ! 8 = 383"
      by (simp_all add: RIGHT_EYEBROW_def)
    with l show "eyebrowPoints c lms RIGHT_EYEBROW st ! 8 = \<lparr> x = 0, y = 0 \<rparr>"
      by (simp add: nth_eyebrowPoints toCanvasPoint_missing)
  qed
  have g: "(idxs \<noteq> [] \<longrightarrow>
        (\<exists>rest. drawOneSide c lms idxs st sd =
           Inr (c\<lparr>ops := ops c
             @ [Save, SetFilter ''blur(0.6px)'', SetStrokeStyle (color st),
                SetLineWidth (real (height c) * 0.012 * thickness st),
                SetLineCap ''round'', SetLineJoin ''round'']
             @ (if length idxs < 2 then [] else midpointPath_spec (eyebrowPoints c lms idxs st))
             @ Stroke # rest\<rparr>)))"
    using drawOneSide_main_stroke [of idxs c lms st sd] by blast
  have h: "ops (fold (fillVertex lms st) (enumerate 0 idxs) c) =
       ops c @ map (\<lambda>(idx, i). (if idx = 0 then MoveTo else LineTo)
                      (x (lms ! i) * real (width c))
                      ((y (lms ! i) + offsetY st) * real (height c)))
                 (filter (\<lambda>(idx, i). i < length lms) (enumerate 0 idxs))"
    by (rule fold_fillVertex_ops)
  show ?thesis
    by (intro conjI a b n d e f g h)
qed

theorem renderer_total_on_short_landmark_sets_witness:
  "drawEyebrows_fill \<lparr> width = 640, height = 480, ops = [] \<rparr>
      (replicate 100 \<lparr> x = 0.5, y = 0.4, z = None \<rparr>) (styles ! 0)
    = Inr \<lparr> width = 640, height = 480,
            ops = [SetFillStyle ''rgba(60, 40, 30, 0.75)'', Save, SetFilter ''blur(0.6px)'',
                   BeginPath, MoveTo 320 192, LineTo 320 192, LineTo 320 192, LineTo 320 192,
                   LineTo 320 192, LineTo 320 192, ClosePath, Fill, Restore,
                   SetFillStyle ''rgba(60, 40, 30, 0.75)'', Save, SetFilter ''blur(0.6px)'',
                   BeginPath, ClosePath, Fill, Restore] \<rparr>
   \<and> eyebrowPoints \<lparr> width = 640, height = 480, ops = [] \<rparr>
        (replicate 100 \<lparr> x = 0.5, y = 0.4, z = None \<rparr>) LEFT_EYEBROW (styles ! 0) ! 3
       = \<lparr> x = 0, y = 0 \<rparr>
   \<and> eyebrowPoints \<lparr> width = 640, height = 480, ops = [] \<rparr>
        (replicate 100 \<lparr> x = 0.5, y = 0.4, z = None \<rparr>) LEFT_EYEBROW (styles ! 0) ! 4
       = \<lparr> x = 320, y = 192 \<rparr>
   \<and> eyebrowPoints \<lparr> width = 640, height = 480, ops = [] \<rparr>
        (replicate 100 \<lparr> x = 0.5, y = 0.4, z = None \<rparr>) RIGHT_EYEBROW (styles ! 0) ! 8
       = \<lparr> x = 0, y = 0 \<rparr>
   \<and> (\<exists>rest. drawEyebrows \<lparr> width = 640, height = 480, ops = [] \<rparr>
          (replicate 100 \<lparr> x = 0.5, y = 0.4, z = None \<rparr>) (styles ! 0)
        = Inr \<lparr> width = 640, height = 480,
                ops = [Save, SetFilter ''blur(0.6px)'', SetStrokeStyle ''rgba(60, 40, 30, 0.75)'',
                       SetLineWidth 5.76, SetLineCap ''round'', SetLineJoin ''round'']
                  @ midpointPath_spec (eyebrowPoints \<lparr> width = 640, height = 480, ops = [] \<rparr>
                      (replicate 100 \<lparr> x = 0.5, y = 0.4, z = None \<rparr>) LEFT_EYEBROW (styles ! 0))
                  @ Stroke # rest \<rparr>)"
proof -
  let ?c = "\<lparr> width = 640, height = 480, ops = [] \<rparr>"
  let ?lms = "replicate 100 \<lparr> x = 0.5, y = 0.4, z = None \<rparr>"
  note t = renderer_total_on_short_landmark_sets
    [where c = ?c and lms = ?lms and st = "styles ! 0" and idxs = LEFT_EYEBROW and sc = 1
       and sd = L]
  have s0: "thickness (styles ! 0) = 1" "offsetY (styles ! 0) = 0"
      "color (styles ! 0) = ''rgba(60, 40, 30, 0.75)''" "id_style (styles ! 0) = ''natural''"
    by (simp_all add: styles_def)
  have k: "(3::nat) < length LEFT_EYEBROW" "(4::nat) < length LEFT_EYEBROW"
      "LEFT_EYEBROW ! 3 = 107" "LEFT_EYEBROW ! 4 = 66" "length LEFT_EYEBROW = 9"
    by (simp_all add: LEFT_EYEBROW_def)
  note ta = t [THEN conjunct1]
  note tb = t [THEN conjunct2, THEN conjunct1]
  note tf = t [THEN conjunct2, THEN conjunct2, THEN conjunct2, THEN conjunct2, THEN conjunct2,
      THEN conjunct2, THEN conjunct1]
  from tb have "drawEyebrows_fill ?c ?lms (styles ! 0)
    = Inr \<lparr> width = 640, height = 480,
            ops = [SetFillStyle ''rgba(60, 40, 30, 0.75)'', Save, SetFilter ''blur(0.6px)'',
                   BeginPath, MoveTo 320 192, LineTo 320 192, LineTo 320 192, LineTo 320 192,
                   LineTo 320 192, LineTo 320 192, ClosePath, Fill, Restore,
                   SetFillStyle ''rgba(60, 40, 30, 0.75)'', Save, SetFilter ''blur(0.6px)'',
                   BeginPath, ClosePath, Fill, Restore] \<rparr>"
    by (simp add: Let_def s0 LEFT_EYEBROW_def RIGHT_EYEBROW_def)
  moreover
  from t have pts: "\<forall>k < length LEFT_EYEBROW.
         (length ?lms \<le> LEFT_EYEBROW ! k \<longrightarrow>
            eyebrowPoints ?c ?lms LEFT_EYEBROW (styles ! 0) ! k = \<lparr> x = 0, y = 0 \<rparr>
            \<and> fillVertex ?lms (styles ! 0) (k, LEFT_EYEBROW ! k) ?c = ?c
            \<and> scaledVertex 1 ?lms (styles ! 0) (k, LEFT_EYEBROW ! k) ?c = ?c)
         \<and> (LEFT_EYEBROW ! k < length ?lms \<longrightarrow>
            eyebrowPoints ?c ?lms LEFT_EYEBROW (styles ! 0) ! k =
              \<lparr> x = x (?lms ! (LEFT_EYEBROW ! k)) * real (width ?c),
                y = y (?lms ! (LEFT_EYEBROW ! k)) * real (height ?c)
                    + offsetY (styles ! 0) * real (height ?c)
                    + - getArchStrength (id_style (styles ! 0)) * real (height ?c)
                      * sin (pi * (if length LEFT_EYEBROW = 1 then 0.5
                                   else real k / (real (length LEFT_EYEBROW) - 1))) \<rparr>)"
    by (rule conjunct1 [OF conjunct2 [OF conjunct2 [OF conjunct2 [OF conjunct2]]]])
  from pts [rule_format, OF k(1)]
  have "eyebrowPoints ?c ?lms LEFT_EYEBROW (styles ! 0) ! 3 = \<lparr> x = 0, y = 0 \<rparr>"
    by (simp add: k)
  moreover
  from pts [rule_format, OF k(2)]
  have "eyebrowPoints ?c ?lms LEFT_EYEBROW (styles ! 0) ! 4 = \<lparr> x = 320, y = 192 \<rparr>"
    by (simp add: k s0 getArchStrength_def)
  moreover
  from tf have "eyebrowPoints ?c ?lms RIGHT_EYEBROW (styles ! 0) ! 8 = \<lparr> x = 0, y = 0 \<rparr>"
    by simp
  moreover
  define rest where "rest = SetGlobalAlpha 0.8
         # midpointPath_spec
                (map (\<lambda>p. \<lparr> x = x p, y = y p - real (height ?c) * 0.012 * thickness (styles ! 0) * 0.18 \<rparr>)
                   (eyebrowPoints ?c ?lms LEFT_EYEBROW (styles ! 0)))
            @ [Stroke, SetGlobalAlpha 0.7]
            @ midpointPath_spec
                (map (\<lambda>p. \<lparr> x = x p, y = y p + real (height ?c) * 0.012 * thickness (styles ! 0) * 0.18 \<rparr>)
                   (eyebrowPoints ?c ?lms LEFT_EYEBROW (styles ! 0)))
            @ [Stroke, Restore]
            @ [Save, SetFilter ''blur(0.6px)'', SetStrokeStyle (color (styles ! 0)),
             SetLineWidth (real (height ?c) * 0.012 * thickness (styles ! 0)), SetLineCap ''round'', SetLineJoin ''round'']
            @ midpointPath_spec (eyebrowPoints ?c ?lms RIGHT_EYEBROW (styles ! 0))
            @ [Stroke, SetGlobalAlpha 0.8]
            @ midpointPath_spec
                (map (\<lambda>p. \<lparr> x = x p, y = y p - real (height ?c) * 0.012 * thickness (styles ! 0) * 0.18 \<rparr>)
                   (eyebrowPoints ?c ?lms RIGHT_EYEBROW (styles ! 0)))
            @ [Stroke, SetGlobalAlpha 0.7]
            @ midpointPath_spec
                (map (\<lambda>p. \<lparr> x = x p, y = y p + real (height ?c) * 0.012 * thickness (styles ! 0) * 0.18 \<rparr>)
                   (eyebrowPoints ?c ?lms RIGHT_EYEBROW (styles ! 0)))
            @ [Stroke, Restore]"
  from ta have "drawEyebrows ?c ?lms (styles ! 0) =
      Inr \<lparr> width = 640, height = 480,
                ops = [Save, SetFilter ''blur(0.6px)'', SetStrokeStyle ''rgba(60, 40, 30, 0.75)'',
                       SetLineWidth 5.76, SetLineCap ''round'', SetLineJoin ''round'']
                  @ midpointPath_spec (eyebrowPoints ?c ?lms LEFT_EYEBROW (styles ! 0))
                  @ Stroke # rest \<rparr>"
    by (simp add: Let_def s0 rest_def)
  then have "\<exists>rest. drawEyebrows ?c ?lms (styles ! 0) =
      Inr \<lparr> width = 640, height = 480,
                ops = [Save, SetFilter ''blur(0.6px)'', SetStrokeStyle ''rgba(60, 40, 30, 0.75)'',
                       SetLineWidth 5.76, SetLineCap ''round'', SetLineJoin ''round'']
                  @ midpointPath_spec (eyebrowPoints ?c ?lms LEFT_EYEBROW (styles ! 0))
                  @ Stroke # rest \<rparr>" ..
  ultimately show ?thesis
    by (intro conjI)
qed

subsection \<open>The capture store\<close>

text \<open>
  Claim C7, as amended. Triggering capture twice on the initial store, with the canvas
  mounted, yields exactly two records, the second capture before the first, each with
  the clock value read at its trigger. The creation timestamps are strictly increasing
  from older to newer exactly when the second clock value is greater than the first: the
  handler stores what \<^verbatim>\<open>Date.now()\<close> returns and compares nothing.
\<close>

theorem capture_twice:
  "handleCapture (Some u2) t2 (handleCapture (Some u1) t1 initCaptures)
     = [\<lparr> url = u2, createdAt = t2 \<rparr>, \<lparr> url = u1, createdAt = t1 \<rparr>]
   \<and> (createdAt (handleCapture (Some u2) t2 (handleCapture (Some u1) t1 initCaptures) ! 1)
        < createdAt (handleCapture (Some u2) t2 (handleCapture (Some u1) t1 initCaptures) ! 0))
      = (t1 < t2)"
  by (simp add: handleCapture_def initCaptures_def)

text \<open>
  Two captures triggered within one millisecond read the same clock value and get equal
  creation timestamps, so the timestamps are not strictly increasing there.
\<close>

theorem capture_same_millisecond:
  "\<not> createdAt (handleCapture (Some ''data:2'') 1000 (handleCapture (Some ''data:1'') 1000 initCaptures) ! 1)
      < createdAt (handleCapture (Some ''data:2'') 1000 (handleCapture (Some ''data:1'') 1000 initCaptures) ! 0)"
  by (simp add: handleCapture_def initCaptures_def)

subsection \<open>A level eyebrow in the natural style\<close>

text \<open>
  Claim C8. The first style of the catalog is \<open>natural\<close>, with vertical offset 0,
  thickness 1.0 and arch strength 0.0. When every index of the left eyebrow has a
  landmark with \<open>y = 0.4\<close>, the points built for the left eyebrow in that style all lie
  at pixel row \<open>0.4 * height\<close>, and the main stroke, which is the path between the
  stroke attributes and the first \<^verbatim>\<open>stroke()\<close>, has every control and end point on
  that row: neither arch displacement nor vertical offset is applied.
\<close>

theorem natural_style_flat_midline:
  assumes "\<forall>i \<in> set LEFT_EYEBROW. i < length lms \<and> y (lms ! i) = 0.4"
  shows "id_style (styles ! 0) = ''natural'' \<and> offsetY (styles ! 0) = 0
    \<and> thickness (styles ! 0) = 1.0 \<and> getArchStrength (id_style (styles ! 0)) = 0.0
    \<and> eyebrowPoints c lms LEFT_EYEBROW (styles ! 0) =
        map (\<lambda>i. \<lparr> x = x (lms ! i) * real (width c), y = 0.4 * real (height c) \<rparr>) LEFT_EYEBROW
    \<and> (\<exists>rest. drawOneSide c lms LEFT_EYEBROW (styles ! 0) L =
          Inr (c\<lparr>ops := ops c
            @ [Save, SetFilter ''blur(0.6px)'', SetStrokeStyle ''rgba(60, 40, 30, 0.75)'',
               SetLineWidth (real (height c) * 0.012 * 1.0),
               SetLineCap ''round'', SetLineJoin ''round'']
            @ midpointPath_spec (eyebrowPoints c lms LEFT_EYEBROW (styles ! 0))
            @ Stroke # rest\<rparr>))
    \<and> Stroke \<notin> set (midpointPath_spec (eyebrowPoints c lms LEFT_EYEBROW (styles ! 0)))
    \<and> (\<forall>cmd \<in> set (midpointPath_spec (eyebrowPoints c lms LEFT_EYEBROW (styles ! 0))).
          \<forall>v \<in> set (pathYs cmd). v = 0.4 * real (height c))"
proof -
  have a: "id_style (styles ! 0) = ''natural'' \<and> offsetY (styles ! 0) = 0
    \<and> thickness (styles ! 0) = 1.0 \<and> getArchStrength (id_style (styles ! 0)) = 0.0"
    by (simp add: styles_natural getArchStrength_def)
  have b: "eyebrowPoints c lms LEFT_EYEBROW (styles ! 0) =
        map (\<lambda>i. \<lparr> x = x (lms ! i) * real (width c), y = 0.4 * real (height c) \<rparr>) LEFT_EYEBROW"
    using assms by (rule natural_points)
  have l: "LEFT_EYEBROW \<noteq> []" "\<not> length LEFT_EYEBROW < 2" "2 \<le> length LEFT_EYEBROW"
    by (simp_all add: LEFT_EYEBROW_def)
  have d: "\<exists>rest. drawOneSide c lms LEFT_EYEBROW (styles ! 0) L =
          Inr (c\<lparr>ops := ops c
            @ [Save, SetFilter ''blur(0.6px)'', SetStrokeStyle ''rgba(60, 40, 30, 0.75)'',
               SetLineWidth (real (height c) * 0.012 * 1.0),
               SetLineCap ''round'', SetLineJoin ''round'']
            @ midpointPath_spec (eyebrowPoints c lms LEFT_EYEBROW (styles ! 0))
            @ Stroke # rest\<rparr>)"
    using l drawOneSide_main_stroke [of LEFT_EYEBROW c lms "styles ! 0" L]
    by (simp add: styles_natural)
  have e: "Stroke \<notin> set (midpointPath_spec (eyebrowPoints c lms LEFT_EYEBROW (styles ! 0)))"
    by (rule midpointPath_no_stroke)
  have f: "\<forall>cmd \<in> set (midpointPath_spec (eyebrowPoints c lms LEFT_EYEBROW (styles ! 0))).
          \<forall>v \<in> set (pathYs cmd). v = 0.4 * real (height c)"
    by (rule midpointPath_constant_y) (simp_all add: b l)
  from a b d e f show ?thesis by blast
qed

theorem natural_style_flat_midline_witness:
  "\<exists>rest. drawOneSide \<lparr> width = 640, height = 480, ops = [] \<rparr>
          (replicate 478 \<lparr> x = 0.5, y = 0.4, z = None \<rparr>) LEFT_EYEBROW (styles ! 0) L =
        Inr \<lparr> width = 640, height = 480,
              ops = [Save, SetFilter ''blur(0.6px)'', SetStrokeStyle ''rgba(60, 40, 30, 0.75)'',
                     SetLineWidth 5.76, SetLineCap ''round'', SetLineJoin ''round'',
                     BeginPath, MoveTo 320 192,
                     QuadraticCurveTo 320 192 320 192, QuadraticCurveTo 320 192 320 192,
                     QuadraticCurveTo 320 192 320 192, QuadraticCurveTo 320 192 320 192,
                     QuadraticCurveTo 320 192 320 192, QuadraticCurveTo 320 192 320 192,
                     QuadraticCurveTo 320 192 320 192, LineTo 320 192, Stroke] @ rest \<rparr>"
proof -
  let ?c = "\<lparr> width = 640, height = 480, ops = [] \<rparr>"
  let ?lms = "replicate 478 \<lparr> x = 0.5, y = 0.4, z = None \<rparr>"
  have h: "\<forall>i \<in> set LEFT_EYEBROW. i < length ?lms \<and> y (?lms ! i) = 0.4"
    by (simp add: LEFT_EYEBROW_def)
  note t = natural_style_flat_midline [OF h, of ?c]
  from t have "eyebrowPoints ?c ?lms LEFT_EYEBROW (styles ! 0) =
      map (\<lambda>i. \<lparr> x = x (?lms ! i) * real (width ?c), y = 0.4 * real (height ?c) \<rparr>) LEFT_EYEBROW"
    by (rule conjunct1 [OF conjunct2 [OF conjunct2 [OF conjunct2 [OF conjunct2]]]])
  then have p: "eyebrowPoints ?c ?lms LEFT_EYEBROW (styles ! 0) =
      [\<lparr> x = 320, y = 192 \<rparr>, \<lparr> x = 320, y = 192 \<rparr>, \<lparr> x = 320, y = 192 \<rparr>,
       \<lparr> x = 320, y = 192 \<rparr>, \<lparr> x = 320, y = 192 \<rparr>, \<lparr> x = 320, y = 192 \<rparr>,
       \<lparr> x = 320, y = 192 \<rparr>, \<lparr> x = 320, y = 192 \<rparr>, \<lparr> x = 320, y = 192 \<rparr>]"
    by (simp add: LEFT_EYEBROW_def)
  have m: "midpointPath_spec (eyebrowPoints ?c ?lms LEFT_EYEBROW (styles ! 0)) =
      [BeginPath, MoveTo 320 192,
       QuadraticCurveTo 320 192 320 192, QuadraticCurveTo 320 192 320 192,
       QuadraticCurveTo 320 192 320 192, QuadraticCurveTo 320 192 320 192,
       QuadraticCurveTo 320 192 320 192, QuadraticCurveTo 320 192 320 192,
       QuadraticCurveTo 320 192 320 192, LineTo 320 192]"
    unfolding p by (simp add: midpointPath_spec_def interiorCurve_spec_def upt_rec)
  from t have "\<exists>rest. drawOneSide ?c ?lms LEFT_EYEBROW (styles ! 0) L =
        Inr (?c\<lparr>ops := ops ?c
            @ [Save, SetFilter ''blur(0.6px)'', SetStrokeStyle ''rgba(60, 40, 30, 0.75)'',
               SetLineWidth (real (height ?c) * 0.012 * 1.0),
               SetLineCap ''round'', SetLineJoin ''round'']
            @ midpointPath_spec (eyebrowPoints ?c ?lms LEFT_EYEBROW (styles ! 0))
            @ Stroke # rest\<rparr>)"
    by (rule conjunct1 [OF conjunct2 [OF conjunct2 [OF conjunct2 [OF conjunct2 [OF conjunct2]]]]])
  then obtain rest where "drawOneSide ?c ?lms LEFT_EYEBROW (styles ! 0) L =
        Inr (?c\<lparr>ops := ops ?c
            @ [Save, SetFilter ''blur(0.6px)'', SetStrokeStyle ''rgba(60, 40, 30, 0.75)'',
               SetLineWidth (real (height ?c) * 0.012 * 1.0),
               SetLineCap ''round'', SetLineJoin ''round'']
            @ midpointPath_spec (eyebrowPoints ?c ?lms LEFT_EYEBROW (styles ! 0))
            @ Stroke # rest\<rparr>)" ..
  then have "drawOneSide ?c ?lms LEFT_EYEBROW (styles ! 0) L =
        Inr \<lparr> width = 640, height = 480,
              ops = [Save, SetFilter ''blur(0.6px)'', SetStrokeStyle ''rgba(60, 40, 30, 0.75)'',
                     SetLineWidth 5.76, SetLineCap ''round'', SetLineJoin ''round'',
                     BeginPath, MoveTo 320 192,
                     QuadraticCurveTo 320 192 320 192, QuadraticCurveTo 320 192 320 192,
                     QuadraticCurveTo 320 192 320 192, QuadraticCurveTo 320 192 320 192,
                     QuadraticCurveTo 320 192 320 192, QuadraticCurveTo 320 192 320 192,
                     QuadraticCurveTo 320 192 320 192, LineTo 320 192, Stroke] @ rest \<rparr>"
    unfolding m by simp
  then show ?thesis ..
qed

subsection \<open>One point per index\<close>

text \<open>
  Claim C9. For every landmark set and every index list, the stroke renderer builds as
  many points as the list has indices; a position whose landmark is missing holds the
  point \<open>(0, 0)\<close>, and no position is dropped. Both eyebrows are therefore built from
  exactly 9 points.
\<close>

theorem eyebrowPoints_one_per_index:
  "length (eyebrowPoints c lms idxs st) = length idxs
   \<and> (\<forall>k < length idxs. length lms \<le> idxs ! k \<longrightarrow>
         eyebrowPoints c lms idxs st ! k = \<lparr> x = 0, y = 0 \<rparr>)
   \<and> length (eyebrowPoints c lms LEFT_EYEBROW st) = 9
   \<and> length (eyebrowPoints c lms RIGHT_EYEBROW st) = 9"
  by (simp add: length_eyebrowPoints nth_eyebrowPoints toCanvasPoint_missing
      LEFT_EYEBROW_def RIGHT_EYEBROW_def)

theorem eyebrowPoints_one_per_index_witness:
  "length (eyebrowPoints \<lparr> width = 640, height = 480, ops = [] \<rparr>
             ([] :: landmark list) LEFT_EYEBROW (styles ! 3)) = length LEFT_EYEBROW
   \<and> (4::nat) < length LEFT_EYEBROW
   \<and> length ([] :: landmark list) \<le> LEFT_EYEBROW ! 4
   \<and> eyebrowPoints \<lparr> width = 640, height = 480, ops = [] \<rparr>
             ([] :: landmark list) LEFT_EYEBROW (styles ! 3) ! 4 = \<lparr> x = 0, y = 0 \<rparr>"
proof -
  have k: "(4::nat) < length LEFT_EYEBROW" by (simp add: LEFT_EYEBROW_def)
  have m: "length ([] :: landmark list) \<le> LEFT_EYEBROW ! 4" by simp
  from eyebrowPoints_one_per_index
    [of "\<lparr> width = 640, height = 480, ops = [] \<rparr>" "[] :: landmark list" LEFT_EYEBROW "styles ! 3"]
    k m show ?thesis by blast
qed

subsection \<open>Calls that draw nothing\<close>

text \<open>
  Claim C10. \<^const>\<open>drawOneSide\<close> on an empty index list returns at once, and
  \<^const>\<open>smoothPath\<close> on fewer than two points emits nothing: each of the two calls
  returns the drawing context it was given.
\<close>

theorem draws_nothing:
  "drawOneSide c landmarks [] style sd = Inr c
   \<and> (length pts < 2 \<longrightarrow> smoothPath c pts = Inr c)"
  by (simp add: drawOneSide_def smoothPath_def)

theorem draws_nothing_witness:
  "length [\<lparr> x = 1, y = 2 \<rparr>] < 2
   \<and> smoothPath \<lparr> width = 640, height = 480, ops = [DrawImage 0 0 640 480] \<rparr> [\<lparr> x = 1, y = 2 \<rparr>]
       = Inr \<lparr> width = 640, height = 480, ops = [DrawImage 0 0 640 480] \<rparr>
   \<and> smoothPath \<lparr> width = 640, height = 480, ops = [DrawImage 0 0 640 480] \<rparr> []
       = Inr \<lparr> width = 640, height = 480, ops = [DrawImage 0 0 640 480] \<rparr>"
  using draws_nothing [of "\<lparr> width = 640, height = 480, ops = [DrawImage 0 0 640 480] \<rparr>"
      "[] :: point list" "styles ! 0" L "[\<lparr> x = 1, y = 2 \<rparr>]"]
    draws_nothing [of "\<lparr> width = 640, height = 480, ops = [DrawImage 0 0 640 480] \<rparr>"
      "[] :: point list" "styles ! 0" L "[]"]
  by simp

end
